theory Spec2Isabelle
  imports Complex_Main "HOL-Library.AList"
begin

section \<open>Python values and exceptions\<close>

text \<open>
  The ingestion script \<^verbatim>\<open>scripts/ingest_datasets.py\<close> works on the values that
  \<^verbatim>\<open>json.loads\<close> and \<^verbatim>\<open>json.load\<close> return. A decoded dict is an association list
  in insertion order with distinct keys; \<open>map_of\<close> is the lookup.
\<close>

datatype json =
    JNull
  | JBool bool
  | JInt int
  | JFloat real
  | JStr string
  | JArr "json list"
  | JObj "(string \<times> json) list"

datatype error =
    JSONDecodeError
  | TypeError
  | KeyError string
  | IndexError
  | AttributeError
  | ValidationError
  | FileNotFoundError
  | IsADirectoryError
  | IntegrityError
  | StatementError
  | OperationalError

text \<open>
  \<^verbatim>\<open>returns.result.Result\<close>: \<open>Inl\<close> is \<^verbatim>\<open>Failure\<close>, \<open>Inr\<close> is \<^verbatim>\<open>Success\<close>. The same
  type carries a raised exception inside a function body.
\<close>

type_synonym 'a result = "error + 'a"

abbreviation Failure :: "error \<Rightarrow> 'a result" where
  "Failure \<equiv> Inl"

abbreviation Success :: "'a \<Rightarrow> 'a result" where
  "Success \<equiv> Inr"

definition and_then :: "'a result \<Rightarrow> ('a \<Rightarrow> 'b result) \<Rightarrow> 'b result" where
  "and_then m f = (case m of Inl e \<Rightarrow> Inl e | Inr x \<Rightarrow> f x)"

text \<open>A \<^verbatim>\<open>for\<close> loop that appends one value per element and stops at the first raise.\<close>

fun for_each :: "('a \<Rightarrow> 'b result) \<Rightarrow> 'a list \<Rightarrow> 'b list result" where
  "for_each f [] = Success []"
| "for_each f (x # xs) =
     and_then (f x) (\<lambda>y. and_then (for_each f xs) (\<lambda>ys. Success (y # ys)))"

section \<open>Operations on decoded values\<close>

text \<open>\<^verbatim>\<open>x[key]\<close> with a string key: only a dict has string keys.\<close>

definition getitem :: "json \<Rightarrow> string \<Rightarrow> json result" where
  "getitem x key =
     (case x of
        JObj kv \<Rightarrow> (case map_of kv key of Some v \<Rightarrow> Success v | None \<Rightarrow> Failure (KeyError key))
      | _ \<Rightarrow> Failure TypeError)"

text \<open>
  \<^verbatim>\<open>x[1]\<close>: the second item of a list, the second character of a string; a decoded dict
  has no integer key; every other value is not subscriptable.
\<close>

definition getitem_1 :: "json \<Rightarrow> json result" where
  "getitem_1 x =
     (case x of
        JArr xs \<Rightarrow> (if 1 < length xs then Success (xs ! 1) else Failure IndexError)
      | JStr s \<Rightarrow> (if 1 < length s then Success (JStr [s ! 1]) else Failure IndexError)
      | JObj kv \<Rightarrow> Failure (KeyError ''1'')
      | _ \<Rightarrow> Failure TypeError)"

text \<open>\<^verbatim>\<open>x[key] = v\<close>: a dict keeps the position of a key it has and appends a new one.\<close>

definition setitem :: "json \<Rightarrow> string \<Rightarrow> json \<Rightarrow> json result" where
  "setitem x key v =
     (case x of
        JObj kv \<Rightarrow> Success (JObj (AList.update key v kv))
      | _ \<Rightarrow> Failure TypeError)"

text \<open>\<^verbatim>\<open>x.get(key)\<close>: \<^verbatim>\<open>None\<close> for an absent key; only a dict has the method.\<close>

definition dict_get :: "json \<Rightarrow> string \<Rightarrow> json result" where
  "dict_get x key =
     (case x of
        JObj kv \<Rightarrow> Success (case map_of kv key of Some v \<Rightarrow> v | None \<Rightarrow> JNull)
      | _ \<Rightarrow> Failure AttributeError)"

text \<open>
  \<^verbatim>\<open>for d in x\<close>: the items of a list, the keys of a dict, the characters of a string.
\<close>

definition iterate :: "json \<Rightarrow> json list result" where
  "iterate x =
     (case x of
        JArr xs \<Rightarrow> Success xs
      | JObj kv \<Rightarrow> Success (map (\<lambda>(k, v). JStr k) kv)
      | JStr s \<Rightarrow> Success (map (\<lambda>c. JStr [c]) s)
      | _ \<Rightarrow> Failure TypeError)"

text \<open>Truth value testing, as the operator \<^verbatim>\<open>or\<close> applies it.\<close>

definition truthy :: "json \<Rightarrow> bool" where
  "truthy x =
     (case x of
        JNull \<Rightarrow> False
      | JBool b \<Rightarrow> b
      | JInt n \<Rightarrow> n \<noteq> 0
      | JFloat r \<Rightarrow> r \<noteq> 0
      | JStr s \<Rightarrow> s \<noteq> []
      | JArr xs \<Rightarrow> xs \<noteq> []
      | JObj kv \<Rightarrow> kv \<noteq> [])"

text \<open>\<^verbatim>\<open>str.capitalize\<close> on ASCII letters; other characters are left as they are.\<close>

definition upper_char :: "char \<Rightarrow> char" where
  "upper_char c =
     (let n = (of_char c :: nat) in if 97 \<le> n \<and> n \<le> 122 then char_of (n - 32) else c)"

definition lower_char :: "char \<Rightarrow> char" where
  "lower_char c =
     (let n = (of_char c :: nat) in if 65 \<le> n \<and> n \<le> 90 then char_of (n + 32) else c)"

definition capitalize :: "string \<Rightarrow> string" where
  "capitalize s = (case s of [] \<Rightarrow> [] | c # cs \<Rightarrow> upper_char c # map lower_char cs)"

text \<open>\<^verbatim>\<open>str(i)\<close> for a natural number, as the f-string \<^verbatim>\<open>f'ans{i}'\<close> formats it.\<close>

function str_nat :: "nat \<Rightarrow> string" where
  "str_nat n =
     (if n < 10 then [''0123456789'' ! n]
      else str_nat (n div 10) @ [''0123456789'' ! (n mod 10)])"
  by pat_completeness auto
termination
  by (relation "measure (\<lambda>n. n)") auto

declare str_nat.simps [simp del]

section \<open>The flat-category family (BBQ)\<close>

text \<open>
  \<^verbatim>\<open>bias_mitigation/data/schemas/datasets.py\<close>. The classes declared with
  \<^verbatim>\<open>table=True\<close> are not validated when they are constructed, so their fields hold the
  decoded values as they are; the surrogate keys \<^verbatim>\<open>id\<close>, \<^verbatim>\<open>bbq_id\<close> are \<^verbatim>\<open>None\<close> until
  the database assigns them and are left out. The fields \<^verbatim>\<open>text\<close> and \<^verbatim>\<open>context\<close> carry
  a prime.
\<close>

record AdditionalMetadata =
  subcategory :: string
  stereotyped_groups :: "string list"
  version :: string
  source :: string

record BBQAnswer =
  index :: nat
  text' :: json
  tag :: json

record BBQ =
  example_id :: json
  question_index :: json
  question_polarity :: json
  context_condition :: json
  category :: json
  additional_metadata :: AdditionalMetadata
  context' :: json
  question :: json
  ans0 :: json
  ans1 :: json
  ans2 :: json
  label :: json
  answers :: "BBQAnswer list"

text \<open>
  \<^verbatim>\<open>AdditionalMetadata(**m)\<close>. The class is not a table, so its fields are validated:
  each of the four is required, a \<^verbatim>\<open>str\<close> field takes a string and the
  \<^verbatim>\<open>list[str]\<close> field a list of strings; other keys are ignored. Unpacking a value
  that is not a dict is a \<^verbatim>\<open>TypeError\<close>.
\<close>

definition as_str :: "json \<Rightarrow> string result" where
  "as_str v = (case v of JStr s \<Rightarrow> Success s | _ \<Rightarrow> Failure ValidationError)"

definition as_str_list :: "json \<Rightarrow> string list result" where
  "as_str_list v = (case v of JArr xs \<Rightarrow> for_each as_str xs | _ \<Rightarrow> Failure ValidationError)"

definition field :: "(string \<times> json) list \<Rightarrow> string \<Rightarrow> (json \<Rightarrow> 'a result) \<Rightarrow> 'a result" where
  "field kv key validate =
     (case map_of kv key of None \<Rightarrow> Failure ValidationError | Some v \<Rightarrow> validate v)"

definition AdditionalMetadata_init :: "json \<Rightarrow> AdditionalMetadata result" where
  "AdditionalMetadata_init m =
     (case m of
        JObj kv \<Rightarrow>
          and_then (field kv ''subcategory'' as_str) (\<lambda>subcategory.
          and_then (field kv ''stereotyped_groups'' as_str_list) (\<lambda>stereotyped_groups.
          and_then (field kv ''version'' as_str) (\<lambda>version.
          and_then (field kv ''source'' as_str) (\<lambda>source.
          Success \<lparr>subcategory = subcategory, stereotyped_groups = stereotyped_groups,
                   version = version, source = source\<rparr>))))
      | _ \<Rightarrow> Failure TypeError)"

text \<open>The body of \<^verbatim>\<open>for i in range(3)\<close> in \<^verbatim>\<open>parse_bbq_file\<close>.\<close>

definition build_answer :: "json \<Rightarrow> nat \<Rightarrow> BBQAnswer result" where
  "build_answer data i =
     (let ans_key = ''ans'' @ str_nat i;
          info_key = ''ans'' @ str_nat i
      in and_then (getitem data ans_key) (\<lambda>text.
         and_then (getitem data ''answer_info'') (\<lambda>answer_info.
         and_then (getitem answer_info info_key) (\<lambda>info.
         and_then (getitem_1 info) (\<lambda>tag.
         Success \<lparr>index = i, text' = text, tag = tag\<rparr>)))))"

text \<open>
  The body of \<^verbatim>\<open>for line in f\<close>. A line is given by what \<^verbatim>\<open>json.loads\<close> makes of it:
  the decoded value, or the error it raises.
\<close>

definition parse_bbq_line :: "string \<Rightarrow> json result \<Rightarrow> BBQ result" where
  "parse_bbq_line cat line =
     and_then line (\<lambda>loaded.
     and_then (setitem loaded ''category'' (JStr cat)) (\<lambda>data.
     and_then (for_each (build_answer data) [0..<3]) (\<lambda>answers.
     and_then (getitem data ''additional_metadata'') (\<lambda>raw_meta.
     and_then (AdditionalMetadata_init raw_meta) (\<lambda>add_meta.
     and_then (getitem data ''example_id'') (\<lambda>example_id.
     and_then (getitem data ''question_index'') (\<lambda>question_index.
     and_then (getitem data ''question_polarity'') (\<lambda>question_polarity.
     and_then (getitem data ''context_condition'') (\<lambda>context_condition.
     and_then (getitem data ''category'') (\<lambda>category.
     and_then (getitem data ''context'') (\<lambda>context.
     and_then (getitem data ''question'') (\<lambda>question.
     and_then (getitem data ''ans0'') (\<lambda>ans0.
     and_then (getitem data ''ans1'') (\<lambda>ans1.
     and_then (getitem data ''ans2'') (\<lambda>ans2.
     and_then (getitem data ''label'') (\<lambda>label.
     Success \<lparr>example_id = example_id, question_index = question_index,
              question_polarity = question_polarity, context_condition = context_condition,
              category = category, additional_metadata = add_meta, context' = context,
              question = question, ans0 = ans0, ans1 = ans1, ans2 = ans2, label = label,
              answers = answers\<rparr>))))))))))))))))"

section \<open>Well-formed and malformed lines\<close>

text \<open>
  The keys that \<^verbatim>\<open>parse_bbq_file\<close> reads from a decoded line (\<^verbatim>\<open>category\<close> is not one
  of them: the parser sets it before it reads it).
\<close>

definition required_keys :: "string list" where
  "required_keys =
     [''ans0'', ''ans1'', ''ans2'', ''answer_info'', ''additional_metadata'', ''example_id'',
      ''question_index'', ''question_polarity'', ''context_condition'', ''context'',
      ''question'', ''label'']"

definition answer_keys :: "string list" where
  "answer_keys = [''ans0'', ''ans1'', ''ans2'']"

definition metadata_keys :: "string list" where
  "metadata_keys = [''subcategory'', ''stereotyped_groups'', ''version'', ''source'']"

definition has :: "(string \<times> json) list \<Rightarrow> (json \<Rightarrow> bool) \<Rightarrow> string \<Rightarrow> bool" where
  "has kv P key = (case map_of kv key of Some v \<Rightarrow> P v | None \<Rightarrow> False)"

definition is_str :: "json \<Rightarrow> bool" where
  "is_str v = (case v of JStr s \<Rightarrow> True | _ \<Rightarrow> False)"

definition is_str_list :: "json \<Rightarrow> bool" where
  "is_str_list v = (case v of JArr xs \<Rightarrow> list_all is_str xs | _ \<Rightarrow> False)"

definition is_pair :: "json \<Rightarrow> bool" where
  "is_pair v = (case v of JArr xs \<Rightarrow> length xs = 2 | _ \<Rightarrow> False)"

text \<open>
  A well-formed line: an object that has every required key, whose \<^verbatim>\<open>answer_info\<close> maps
  each of \<^verbatim>\<open>ans0\<close>, \<^verbatim>\<open>ans1\<close>, \<^verbatim>\<open>ans2\<close> to a 2-element array, and whose
  \<^verbatim>\<open>additional_metadata\<close> has the four fields of the class with their types.
\<close>

definition well_formed :: "json \<Rightarrow> bool" where
  "well_formed data =
     (case data of
        JObj kv \<Rightarrow>
          list_all (has kv (\<lambda>v. True)) required_keys
        \<and> has kv (\<lambda>answer_info.
             case answer_info of
               JObj info \<Rightarrow> list_all (has info is_pair) answer_keys
             | _ \<Rightarrow> False) ''answer_info''
        \<and> has kv (\<lambda>meta.
             case meta of
               JObj m \<Rightarrow> has m is_str ''subcategory'' \<and> has m is_str_list ''stereotyped_groups''
                         \<and> has m is_str ''version'' \<and> has m is_str ''source''
             | _ \<Rightarrow> False) ''additional_metadata''
      | _ \<Rightarrow> False)"

definition well_formed_line :: "json result \<Rightarrow> bool" where
  "well_formed_line line = (case line of Inl e \<Rightarrow> False | Inr data \<Rightarrow> well_formed data)"

text \<open>
  A malformed line: one that is not valid JSON, or an object that lacks a required key,
  a key \<^verbatim>\<open>ans{i}\<close> of its \<^verbatim>\<open>answer_info\<close> object, or a field of its
  \<^verbatim>\<open>additional_metadata\<close> object.
\<close>

definition lacks_key :: "(string \<times> json) list \<Rightarrow> string \<Rightarrow> bool" where
  "lacks_key kv key = (map_of kv key = None)"

definition lacks_required_field :: "json \<Rightarrow> bool" where
  "lacks_required_field data =
     (case data of
        JObj kv \<Rightarrow>
          list_ex (lacks_key kv) required_keys
        \<or> (case map_of kv ''answer_info'' of
              Some (JObj info) \<Rightarrow> list_ex (lacks_key info) answer_keys
            | _ \<Rightarrow> False)
        \<or> (case map_of kv ''additional_metadata'' of
              Some (JObj m) \<Rightarrow> list_ex (lacks_key m) metadata_keys
            | _ \<Rightarrow> False)
      | _ \<Rightarrow> False)"

definition malformed :: "json result \<Rightarrow> bool" where
  "malformed line = (case line of Inl e \<Rightarrow> True | Inr data \<Rightarrow> lacks_required_field data)"

section \<open>The file system\<close>

text \<open>
  A path is the list of its parts, \<^verbatim>\<open>base / name\<close> appends one. A file's content is
  given as the script reads it: the lines of a \<^verbatim>\<open>.jsonl\<close> file, each as \<^verbatim>\<open>json.loads\<close>
  decodes it, or the document that \<^verbatim>\<open>json.load\<close> decodes from a \<^verbatim>\<open>.json\<close> file.
\<close>

type_synonym path = "string list"

datatype 'c node = Dir | File 'c

type_synonym 'c fs = "path \<Rightarrow> 'c node option"

definition path_exists :: "'c fs \<Rightarrow> path \<Rightarrow> bool" where
  "path_exists fs p = (fs p \<noteq> None)"

definition open_read :: "'c fs \<Rightarrow> path \<Rightarrow> 'c result" where
  "open_read fs p =
     (case fs p of
        None \<Rightarrow> Failure FileNotFoundError
      | Some Dir \<Rightarrow> Failure IsADirectoryError
      | Some (File content) \<Rightarrow> Success content)"

text \<open>\<^verbatim>\<open>parse_bbq_file\<close>; the decorator \<^verbatim>\<open>@safe\<close> returns every exception as a failure.\<close>

definition parse_bbq_file :: "json result list fs \<Rightarrow> path \<Rightarrow> string \<Rightarrow> BBQ list result" where
  "parse_bbq_file fs file_path cat =
     and_then (open_read fs file_path) (\<lambda>f. for_each (parse_bbq_line cat) f)"

section \<open>The chunker\<close>

text \<open>
  \<^verbatim>\<open>range(start, stop, step)\<close> for a positive step. Python raises \<^verbatim>\<open>ValueError\<close> for
  step 0; the script only ever passes the constant \<^verbatim>\<open>chunk_size = 1000\<close>.
\<close>

function py_range :: "nat \<Rightarrow> nat \<Rightarrow> nat \<Rightarrow> nat list" where
  "py_range start stop step =
     (if step = 0 \<or> stop \<le> start then [] else start # py_range (start + step) stop step)"
  by pat_completeness auto
termination
  by (relation "measure (\<lambda>(start, stop, step). stop - start)") auto

declare py_range.simps [simp del]

text \<open>The slice \<^verbatim>\<open>xs[i : j]\<close> for \<open>0 \<le> i \<le> j\<close>; it is cut at the end of the list.\<close>

definition slice :: "'a list \<Rightarrow> nat \<Rightarrow> nat \<Rightarrow> 'a list" where
  "slice xs i j = take (j - i) (drop i xs)"

text \<open>
  \<^verbatim>\<open>chunks = [entries[i : i + chunk_size] for i in range(0, len(entries), chunk_size)]\<close>
\<close>

definition chunked :: "nat \<Rightarrow> 'a list \<Rightarrow> 'a list list" where
  "chunked chunk_size entries =
     map (\<lambda>i. slice entries i (i + chunk_size)) (py_range 0 (length entries) chunk_size)"

definition chunk_size :: nat where
  "chunk_size = 1000"

section \<open>The nested-document family (StereoSet)\<close>

text \<open>
  The three tables of the family. The primary key \<^verbatim>\<open>id\<close> of \<^verbatim>\<open>StereoSet\<close> is taken from
  the source and carries a prime here; the generated keys are left out as above.
\<close>

record StereoSetLabel =
  label :: json
  human_id :: json

record StereoSetSentence =
  sentence :: json
  sentence_id :: json
  gold_label :: json
  labels :: "StereoSetLabel list"

record StereoSet =
  id' :: json
  target :: json
  bias_type :: json
  context' :: json
  type :: string
  sentences :: "StereoSetSentence list"

text \<open>\<^verbatim>\<open>StereoSetLabel(label=l['label'], human_id=l['human_id'])\<close>\<close>

definition build_label :: "json \<Rightarrow> StereoSetLabel result" where
  "build_label l =
     and_then (getitem l ''label'') (\<lambda>label.
     and_then (getitem l ''human_id'') (\<lambda>human_id.
     Success \<lparr>label = label, human_id = human_id\<rparr>))"

text \<open>The body of \<^verbatim>\<open>for s in d['sentences']\<close>.\<close>

definition build_sentence :: "json \<Rightarrow> StereoSetSentence result" where
  "build_sentence s =
     and_then (getitem s ''labels'') (\<lambda>raw_labels.
     and_then (iterate raw_labels) (\<lambda>ls.
     and_then (for_each build_label ls) (\<lambda>labels.
     and_then (getitem s ''sentence'') (\<lambda>sentence.
     and_then (getitem s ''id'') (\<lambda>sentence_id.
     and_then (getitem s ''gold_label'') (\<lambda>gold_label.
     Success \<lparr>sentence = sentence, sentence_id = sentence_id, gold_label = gold_label,
              labels = labels\<rparr>))))))"

text \<open>The body of \<^verbatim>\<open>for d in raw_data\<close>.\<close>

definition build_entry :: "string \<Rightarrow> json \<Rightarrow> StereoSet result" where
  "build_entry entry_type d =
     and_then (getitem d ''sentences'') (\<lambda>raw_sentences.
     and_then (iterate raw_sentences) (\<lambda>ss.
     and_then (for_each build_sentence ss) (\<lambda>sentences.
     and_then (getitem d ''id'') (\<lambda>id.
     and_then (getitem d ''target'') (\<lambda>target.
     and_then (getitem d ''bias_type'') (\<lambda>bias_type.
     and_then (getitem d ''context'') (\<lambda>context.
     Success \<lparr>id' = id, target = target, bias_type = bias_type, context' = context,
              type = entry_type, sentences = sentences\<rparr>)))))))"

text \<open>
  \<^verbatim>\<open>raw_data = raw.get('data', raw) if isinstance(raw, dict) else raw\<close>
\<close>

definition data_section :: "json \<Rightarrow> json" where
  "data_section raw =
     (case raw of
        JObj kv \<Rightarrow> (case map_of kv ''data'' of Some d \<Rightarrow> d | None \<Rightarrow> raw)
      | _ \<Rightarrow> raw)"

text \<open>
  \<^verbatim>\<open>raw_data.get(entry_type) or raw_data.get(entry_type.capitalize()) or raw_data\<close>:
  \<^verbatim>\<open>or\<close> gives its left operand when that is true and evaluates the right one otherwise.
\<close>

definition locate_documents :: "json \<Rightarrow> string \<Rightarrow> json result" where
  "locate_documents raw_data entry_type =
     and_then (dict_get raw_data entry_type) (\<lambda>lower.
     if truthy lower then Success lower
     else and_then (dict_get raw_data (capitalize entry_type)) (\<lambda>upper.
          if truthy upper then Success upper else Success raw_data))"

text \<open>\<^verbatim>\<open>parse_stereoset_file\<close>, with the file given by what \<^verbatim>\<open>json.load\<close> decodes.\<close>

definition parse_stereoset_file :: "json result fs \<Rightarrow> path \<Rightarrow> string \<Rightarrow> StereoSet list result" where
  "parse_stereoset_file fs file_path entry_type =
     and_then (open_read fs file_path) (\<lambda>f.
     and_then f (\<lambda>raw.
     and_then (locate_documents (data_section raw) entry_type) (\<lambda>raw_data.
     and_then (iterate raw_data) (\<lambda>ds.
     for_each (build_entry entry_type) ds))))"

section \<open>The session and the batch loader\<close>

text \<open>
  A chunk is a \<^verbatim>\<open>list[SQLModel]\<close> of root entities; their children are stored with them
  (the relationships cascade).
\<close>

datatype entity = BBQ_row BBQ | StereoSet_row StereoSet

text \<open>
  The session: the rows the database holds durably, and the rows written in the open
  transaction that are not committed yet.
\<close>

record session =
  committed :: "entity list"
  flushed :: "entity list"

text \<open>
  The key constraints that \<^verbatim>\<open>datasets.py\<close> declares: \<^verbatim>\<open>BBQ.example_id\<close> and
  \<^verbatim>\<open>StereoSetSentence.sentence_id\<close> are \<^verbatim>\<open>unique=True\<close>, \<^verbatim>\<open>StereoSet.id\<close> is the
  primary key.
\<close>

fun example_id_of :: "entity \<Rightarrow> json list" where
  "example_id_of (BBQ_row b) = [example_id b]"
| "example_id_of (StereoSet_row d) = []"

fun sentence_ids_of :: "entity \<Rightarrow> json list" where
  "sentence_ids_of (BBQ_row b) = []"
| "sentence_ids_of (StereoSet_row d) = map sentence_id (sentences d)"

fun stereoset_id_of :: "entity \<Rightarrow> json list" where
  "stereoset_id_of (BBQ_row b) = []"
| "stereoset_id_of (StereoSet_row d) = [id' d]"

definition example_ids :: "entity list \<Rightarrow> json list" where
  "example_ids rows = concat (map example_id_of rows)"

definition sentence_ids :: "entity list \<Rightarrow> json list" where
  "sentence_ids rows = concat (map sentence_ids_of rows)"

definition stereoset_ids :: "entity list \<Rightarrow> json list" where
  "stereoset_ids rows = concat (map stereoset_id_of rows)"

definition constraints_ok :: "entity list \<Rightarrow> bool" where
  "constraints_ok rows =
     (distinct (example_ids rows) \<and> distinct (sentence_ids rows) \<and> distinct (stereoset_ids rows))"

text \<open>
  The column \<^verbatim>\<open>BBQ.additional_metadata\<close> has the type \<^verbatim>\<open>JSON\<close> (\<^verbatim>\<open>sa_type=JSON\<close>) and
  the engine is created without a \<^verbatim>\<open>json_serializer\<close>, so the value of the column is
  passed to \<^verbatim>\<open>json.dumps\<close> when the row is written. \<^verbatim>\<open>parse_bbq_file\<close> binds the
  \<^verbatim>\<open>AdditionalMetadata\<close> object itself to the field, and a table class does not convert
  it: \<^verbatim>\<open>json.dumps\<close> raises \<^verbatim>\<open>TypeError\<close> for the object, which the session raises as a
  \<^verbatim>\<open>StatementError\<close>. The tables of the other family have no such column.
\<close>

fun json_serializable :: "entity \<Rightarrow> bool" where
  "json_serializable (BBQ_row b) = False"
| "json_serializable (StereoSet_row d) = True"

text \<open>
  What the database does beyond this and the key constraints (a lost connection, for
  one) is a parameter: the error it raises when the chunk is written, and the error it
  raises when the chunk is committed, if any.
\<close>

record backend =
  flush_error :: "entity list \<Rightarrow> error option"
  commit_error :: "entity list \<Rightarrow> error option"

text \<open>
  Writing the pending objects: the backend may refuse them; a value that cannot be
  serialised is a \<^verbatim>\<open>StatementError\<close>; a row that breaks a key constraint against the rows
  already written, or against another row of the same chunk, is an \<^verbatim>\<open>IntegrityError\<close>.
\<close>

definition flush :: "backend \<Rightarrow> session \<Rightarrow> entity list \<Rightarrow> session result" where
  "flush refuses s pending =
     (case flush_error refuses pending of
        Some e \<Rightarrow> Failure e
      | None \<Rightarrow>
          if \<not> list_all json_serializable pending then Failure StatementError
          else if constraints_ok (committed s @ flushed s @ pending)
          then Success (s\<lparr>flushed := flushed s @ pending\<rparr>)
          else Failure IntegrityError)"

text \<open>
  \<^verbatim>\<open>await session.commit()\<close>: the rows written in the transaction become durable, or the
  backend raises and they stay written and uncommitted.
\<close>

definition commit :: "backend \<Rightarrow> session \<Rightarrow> session result" where
  "commit refuses s =
     (case commit_error refuses (flushed s) of
        Some e \<Rightarrow> Failure e
      | None \<Rightarrow> Success \<lparr>committed = committed s @ flushed s, flushed = []\<rparr>)"

text \<open>
  \<^verbatim>\<open>insert_chunk\<close>. \<^verbatim>\<open>begin_nested\<close> sets a savepoint, \<^verbatim>\<open>add_all\<close> makes the chunk
  pending, and leaving the block writes it and releases the savepoint; an exception
  there rolls back to the savepoint and leaves the function before \<^verbatim>\<open>commit\<close>. The
  commit follows the block: when it raises, the savepoint is already released. In both
  cases \<^verbatim>\<open>@future_safe\<close> returns the exception as a failure.
\<close>

definition insert_chunk :: "backend \<Rightarrow> session \<Rightarrow> entity list \<Rightarrow> session \<times> unit result" where
  "insert_chunk refuses s chunk =
     (let savepoint = s
      in case flush refuses s chunk of
           Inl e \<Rightarrow> (savepoint, Failure e)
         | Inr s' \<Rightarrow>
             (case commit refuses s' of
                Inl e \<Rightarrow> (s', Failure e)
              | Inr s'' \<Rightarrow> (s'', Success ())))"

text \<open>
  The values that the script tests with \<^verbatim>\<open>isinstance(r, Failure)\<close>, where \<^verbatim>\<open>Failure\<close> is
  the class of \<^verbatim>\<open>returns.result\<close>: a \<^verbatim>\<open>Result\<close>, as \<^verbatim>\<open>@safe\<close> returns it, or the
  \<^verbatim>\<open>IOResult\<close> that \<^verbatim>\<open>FutureResult.awaitable()\<close> gives. An \<^verbatim>\<open>IOResult\<close> is not an instance
  of that class, whatever it holds.
\<close>

datatype 'a container = Result "'a result" | IOResult "'a result"

fun isinstance_Failure :: "'a container \<Rightarrow> bool" where
  "isinstance_Failure (Result (Inl e)) = True"
| "isinstance_Failure (Result (Inr x)) = False"
| "isinstance_Failure (IOResult r) = False"

text \<open>
  \<^verbatim>\<open>results = await asyncio.gather(*(fr.awaitable() for fr in insert_futures))\<close>: one
  \<^verbatim>\<open>IOResult\<close> per chunk, in the order of the chunks. The loads are awaited together on the
  one session; here they run one after the other in that order, which is the only
  schedule of a source of at most one chunk. The interleavings of two or more loads are not
  modelled.
\<close>

fun insert_chunks ::
  "backend \<Rightarrow> session \<Rightarrow> entity list list \<Rightarrow> session \<times> unit container list" where
  "insert_chunks refuses s [] = (s, [])"
| "insert_chunks refuses s (chunk # chunks) =
     (let (s', r) = insert_chunk refuses s chunk;
          (s'', rs) = insert_chunks refuses s' chunks
      in (s'', IOResult r # rs))"

section \<open>The orchestrator\<close>

datatype level = WARNING | ERROR | INFO

datatype family = BBQ_family | StereoSet_family

text \<open>The four messages of the script, with the values their f-strings format.\<close>

datatype message =
    Skipping_missing_file path
  | Failed_parsing family string error
  | Insert_failure family string error
  | Loaded nat family string

type_synonym log = "(level \<times> message) list"

text \<open>
  \<^verbatim>\<open>failures = [r for r in results if isinstance(r, Failure)]\<close>, each with the error that
  \<^verbatim>\<open>fail.failure()\<close> gives when it is logged.
\<close>

fun failure :: "'a container \<Rightarrow> error list" where
  "failure (Result (Inl e)) = [e]"
| "failure (Result (Inr x)) = []"
| "failure (IOResult r) = []"

definition failures :: "'a container list \<Rightarrow> error list" where
  "failures results = concat (map failure (filter isinstance_Failure results))"

text \<open>
  The end of both loop bodies, from \<^verbatim>\<open>entries = parse_result.unwrap()\<close> on: chunk the
  entries, load every chunk, then log each failure of the list, or the count when the list
  is empty. \<^verbatim>\<open>logger.exception\<close> logs at the level \<^verbatim>\<open>ERROR\<close>.
\<close>

definition load_entries ::
  "backend \<Rightarrow> family \<Rightarrow> string \<Rightarrow> session \<times> log \<Rightarrow> entity list \<Rightarrow> session \<times> log" where
  "load_entries refuses fam name st entries =
     (let (s, lg) = st;
          chunks = chunked chunk_size entries;
          (s', results) = insert_chunks refuses s chunks;
          fails = failures results
      in if fails \<noteq> []
         then (s', lg @ map (\<lambda>fail. (ERROR, Insert_failure fam name fail)) fails)
         else (s', lg @ [(INFO, Loaded (length entries) fam name)]))"

definition categories :: "string list" where
  "categories =
     [''Age'', ''Disability_status'', ''Gender_identity'', ''Nationality'',
      ''Physical_appearance'', ''Race_ethnicity'', ''Race_x_SES'', ''Race_x_gender'',
      ''Religion'', ''SES'', ''Sexual_orientation'']"

text \<open>The body of \<^verbatim>\<open>for cat in categories\<close> in \<^verbatim>\<open>load_bbq\<close>.\<close>

definition load_bbq_category ::
  "backend \<Rightarrow> json result list fs \<Rightarrow> path \<Rightarrow> session \<times> log \<Rightarrow> string \<Rightarrow> session \<times> log" where
  "load_bbq_category refuses fs bbq_dir st cat =
     (let file_path = bbq_dir @ [cat @ ''.jsonl'']
      in if \<not> path_exists fs file_path
         then (fst st, snd st @ [(WARNING, Skipping_missing_file file_path)])
         else case parse_bbq_file fs file_path cat of
                Inl e \<Rightarrow> (fst st, snd st @ [(ERROR, Failed_parsing BBQ_family cat e)])
              | Inr entries \<Rightarrow> load_entries refuses BBQ_family cat st (map BBQ_row entries))"

text \<open>
  \<^verbatim>\<open>load_bbq\<close>: the result is the session and the log after the last category, or the
  exception the function raises.
\<close>

definition load_bbq ::
  "backend \<Rightarrow> json result list fs \<Rightarrow> session \<Rightarrow> path \<Rightarrow> (session \<times> log) result" where
  "load_bbq refuses fs s base_path =
     (let bbq_dir = base_path @ [''bbq'']
      in if \<not> path_exists fs bbq_dir then Failure FileNotFoundError
         else Success (foldl (load_bbq_category refuses fs bbq_dir) (s, []) categories))"

definition files :: "(string \<times> string) list" where
  "files = [(''intersentence.json'', ''intersentence''), (''intrasentence.json'', ''intrasentence'')]"

text \<open>The body of \<^verbatim>\<open>for filename, entry_type in files\<close> in \<^verbatim>\<open>load_stereoset\<close>.\<close>

definition load_stereoset_file ::
  "backend \<Rightarrow> json result fs \<Rightarrow> path \<Rightarrow> session \<times> log \<Rightarrow> string \<times> string \<Rightarrow> session \<times> log" where
  "load_stereoset_file refuses fs stereoset_dir st file =
     (let (filename, entry_type) = file;
          file_path = stereoset_dir @ [filename]
      in if \<not> path_exists fs file_path
         then (fst st, snd st @ [(WARNING, Skipping_missing_file file_path)])
         else case parse_stereoset_file fs file_path entry_type of
                Inl e \<Rightarrow> (fst st, snd st @ [(ERROR, Failed_parsing StereoSet_family filename e)])
              | Inr entries \<Rightarrow>
                  load_entries refuses StereoSet_family filename st (map StereoSet_row entries))"

definition load_stereoset ::
  "backend \<Rightarrow> json result fs \<Rightarrow> session \<Rightarrow> path \<Rightarrow> (session \<times> log) result" where
  "load_stereoset refuses fs s base_path =
     (let stereoset_dir = base_path @ [''stereoset'']
      in if \<not> path_exists fs stereoset_dir then Failure FileNotFoundError
         else Success (foldl (load_stereoset_file refuses fs stereoset_dir) (s, []) files))"

section \<open>Concrete inputs\<close>

text \<open>A backend that raises nothing of its own, and the session of a fresh database.\<close>

definition no_refusal :: backend where
  "no_refusal = \<lparr>flush_error = (\<lambda>chunk. None), commit_error = (\<lambda>chunk. None)\<rparr>"

definition empty_session :: session where
  "empty_session = \<lparr>committed = [], flushed = []\<rparr>"

text \<open>
  A line of \<^verbatim>\<open>Age.jsonl\<close> with the given \<^verbatim>\<open>example_id\<close> and \<^verbatim>\<open>answer_info\<close>, decoded.
\<close>

definition bbq_line :: "int \<Rightarrow> (string \<times> json) list \<Rightarrow> json" where
  "bbq_line n info =
     JObj [(''example_id'', JInt n),
           (''question_index'', JStr ''1''),
           (''question_polarity'', JStr ''neg''),
           (''context_condition'', JStr ''ambig''),
           (''category'', JStr ''Age''),
           (''answer_info'', JObj info),
           (''additional_metadata'',
              JObj [(''subcategory'', JStr ''None''),
                    (''stereotyped_groups'', JArr [JStr ''old'']),
                    (''version'', JStr ''a''),
                    (''source'', JStr ''url'')]),
           (''context'', JStr ''At the park''),
           (''question'', JStr ''Who?''),
           (''ans0'', JStr ''grandfather''),
           (''ans1'', JStr ''grandson''),
           (''ans2'', JStr ''Unknown''),
           (''label'', JInt 2)]"

definition example_line :: "int \<Rightarrow> json" where
  "example_line n =
     bbq_line n [(''ans0'', JArr [JStr ''grandfather'', JStr ''old'']),
                 (''ans1'', JArr [JStr ''grandson'', JStr ''nonOld'']),
                 (''ans2'', JArr [JStr ''Unknown'', JStr ''unknown''])]"

text \<open>The same line without the key \<^verbatim>\<open>ans1\<close> in its \<^verbatim>\<open>answer_info\<close>.\<close>

definition line_without_ans1 :: "int \<Rightarrow> json" where
  "line_without_ans1 n =
     bbq_line n [(''ans0'', JArr [JStr ''grandfather'', JStr ''old'']),
                 (''ans2'', JArr [JStr ''Unknown'', JStr ''unknown''])]"

text \<open>The entry that \<^verbatim>\<open>parse_bbq_file\<close> builds from \<open>example_line n\<close> for the category Age.\<close>

definition example_bbq :: "int \<Rightarrow> BBQ" where
  "example_bbq n =
     \<lparr>example_id = JInt n, question_index = JStr ''1'', question_polarity = JStr ''neg'',
      context_condition = JStr ''ambig'', category = JStr ''Age'',
      additional_metadata =
        \<lparr>subcategory = ''None'', stereotyped_groups = [''old''], version = ''a'',
         source = ''url''\<rparr>,
      context' = JStr ''At the park'', question = JStr ''Who?'',
      ans0 = JStr ''grandfather'', ans1 = JStr ''grandson'', ans2 = JStr ''Unknown'',
      label = JInt 2,
      answers =
        [\<lparr>index = 0, text' = JStr ''grandfather'', tag = JStr ''old''\<rparr>,
         \<lparr>index = 1, text' = JStr ''grandson'', tag = JStr ''nonOld''\<rparr>,
         \<lparr>index = 2, text' = JStr ''Unknown'', tag = JStr ''unknown''\<rparr>]\<rparr>"

text \<open>
  The directory \<^verbatim>\<open>datasets/bbq\<close> holding the one file \<^verbatim>\<open>Age.jsonl\<close> with the given
  lines, and the directory \<^verbatim>\<open>datasets/stereoset\<close> holding \<^verbatim>\<open>intersentence.json\<close> with
  the given document.
\<close>

definition bbq_fs :: "json result list \<Rightarrow> json result list fs" where
  "bbq_fs lines =
     map_of [([''datasets'', ''bbq''], Dir),
             ([''datasets'', ''bbq'', ''Age.jsonl''], File lines)]"

definition stereoset_fs :: "json result \<Rightarrow> json result fs" where
  "stereoset_fs document =
     map_of [([''datasets'', ''stereoset''], Dir),
             ([''datasets'', ''stereoset'', ''intersentence.json''], File document)]"

text \<open>A raw document with one sentence and one label, and the entity built from it.\<close>

definition raw_document :: "string \<Rightarrow> string \<Rightarrow> json" where
  "raw_document doc_id sent_id =
     JObj [(''id'', JStr doc_id),
           (''target'', JStr ''Ethiopia''),
           (''bias_type'', JStr ''race''),
           (''context'', JStr ''Many people live in Ethiopia.''),
           (''sentences'',
              JArr [JObj [(''sentence'', JStr ''The people are very thin.''),
                          (''id'', JStr sent_id),
                          (''labels'', JArr [JObj [(''label'', JStr ''stereotype''),
                                                   (''human_id'', JStr ''h1'')]]),
                          (''gold_label'', JStr ''stereotype'')]])]"

definition example_document :: "string \<Rightarrow> string \<Rightarrow> StereoSet" where
  "example_document doc_id sent_id =
     \<lparr>id' = JStr doc_id, target = JStr ''Ethiopia'', bias_type = JStr ''race'',
      context' = JStr ''Many people live in Ethiopia.'', type = ''intersentence'',
      sentences =
        [\<lparr>sentence = JStr ''The people are very thin.'', sentence_id = JStr sent_id,
          gold_label = JStr ''stereotype'',
          labels = [\<lparr>label = JStr ''stereotype'', human_id = JStr ''h1''\<rparr>]\<rparr>]\<rparr>"

text \<open>The decoded file whose key \<^verbatim>\<open>data\<close> maps to the given section.\<close>

definition with_data :: "(string \<times> json) list \<Rightarrow> json result" where
  "with_data section = Success (JObj [(''data'', JObj section)])"

section \<open>Properties of the chunker\<close>

lemma range_count_full:
  fixes step :: nat
  assumes "0 < step" "start + step \<le> stop"
  shows "(stop - start + step - 1) div step = Suc ((stop - (start + step) + step - 1) div step)"
proof -
  have "stop - start + step - 1 = (stop - (start + step) + step - 1) + step"
    using assms by simp
  then have "(stop - start + step - 1) div step
               = ((stop - (start + step) + step - 1) + step) div step"
    by (rule arg_cong)
  also have "\<dots> = Suc ((stop - (start + step) + step - 1) div step)"
    using assms(1) by (simp only: div_add_self2)
  finally show ?thesis .
qed

lemma range_count_last:
  fixes step :: nat
  assumes "0 < step" "\<not> start + step \<le> stop" "\<not> stop \<le> start"
  shows "(stop - start + step - 1) div step = Suc ((stop - (start + step) + step - 1) div step)"
proof -
  have "stop - start + step - 1 = (stop - start - 1) + step"
    using assms by simp
  then have "(stop - start + step - 1) div step = ((stop - start - 1) + step) div step"
    by (rule arg_cong)
  also have "\<dots> = Suc ((stop - start - 1) div step)"
    using assms(1) by (simp only: div_add_self2)
  also have "(stop - start - 1) div step = 0"
    using assms by simp
  finally have l: "(stop - start + step - 1) div step = Suc 0" .
  have "stop - (start + step) + step - 1 = step - 1"
    using assms by simp
  then have "(stop - (start + step) + step - 1) div step = 0"
    using assms(1) by simp
  with l show ?thesis by simp
qed

lemma chunk_start_in_range:
  fixes C :: nat
  assumes "0 < C" "k < (n + C - 1) div C"
  shows "k * C < n"
proof -
  from assms(2) have "Suc k \<le> (n + C - 1) div C" by simp
  then have "Suc k * C \<le> n + C - 1"
    using assms(1) by (simp only: less_eq_div_iff_mult_less_eq)
  then show ?thesis using assms(1) by simp
qed

lemma py_range_closed:
  "0 < c \<Longrightarrow> py_range i n c = map (\<lambda>k. i + k * c) [0..<(n - i + c - 1) div c]"
proof (induction i n c rule: py_range.induct)
  case (1 start stop step)
  show ?case
  proof (cases "stop \<le> start")
    case True
    with "1.prems" show ?thesis
      by (simp add: py_range.simps)
  next
    case False
    with "1.prems" have ih:
      "py_range (start + step) stop step =
         map (\<lambda>k. start + step + k * step) [0..<(stop - (start + step) + step - 1) div step]"
      using "1.IH" by simp
    have cnt: "(stop - start + step - 1) div step
                 = Suc ((stop - (start + step) + step - 1) div step)"
      using range_count_full [of step start stop] range_count_last [of step start stop]
        False "1.prems" by blast
    have "py_range start stop step = start # py_range (start + step) stop step"
      using False "1.prems" by (subst py_range.simps) simp
    also have "\<dots> = map (\<lambda>k. start + k * step) [0..<(stop - start + step - 1) div step]"
    proof -
      have "[0..<Suc m] = 0 # map Suc [0..<m]" for m
        by (simp only: map_Suc_upt upt_conv_Cons [OF zero_less_Suc])
      then show ?thesis
        unfolding ih cnt by (simp add: comp_def del: upt_Suc)
    qed
    finally show ?thesis .
  qed
qed

lemma concat_chunks_from:
  "0 < c \<Longrightarrow> concat (map (\<lambda>i. slice es i (i + c)) (py_range i (length es) c)) = drop i es"
proof (induction i "length es" c rule: py_range.induct)
  case (1 start step)
  show ?case
  proof (cases "length es \<le> start")
    case True
    then show ?thesis by (simp add: py_range.simps)
  next
    case False
    with "1.prems" have
      "concat (map (\<lambda>i. slice es i (i + step)) (py_range (start + step) (length es) step))
         = drop (start + step) es"
      using "1.hyps" by simp
    moreover have "py_range start (length es) step
                     = start # py_range (start + step) (length es) step"
      using False "1.prems" by (subst py_range.simps) simp
    moreover have "take step (drop start es) @ drop (start + step) es = drop start es"
      by (metis add.commute append_take_drop_id drop_drop)
    ultimately show ?thesis
      by (simp add: slice_def)
  qed
qed

text \<open>
  C2. For every entity sequence of length \<open>N\<close> and every chunk size \<open>C \<ge> 1\<close> (the script's
  value is 1000), the chunker produces \<open>\<lceil>N/C\<rceil>\<close> chunks; chunk \<open>k\<close> is the contiguous run of
  at most \<open>C\<close> entries that starts at position \<open>k * C\<close> (so the chunks do not overlap and keep
  the input order); every chunk but the last has exactly \<open>C\<close> entries and the last one has
  between 1 and \<open>C\<close>; and concatenating the chunks in order gives back the sequence.
\<close>

theorem chunked_lossless_ordered:
  assumes "1 \<le> C"
  shows "chunk_size = 1000
       \<and> length (chunked C entries) = (length entries + C - 1) div C
       \<and> concat (chunked C entries) = entries
       \<and> (\<forall>k < length (chunked C entries).
             chunked C entries ! k = take C (drop (k * C) entries)
           \<and> chunked C entries ! k \<noteq> []
           \<and> length (chunked C entries ! k) \<le> C
           \<and> (Suc k < length (chunked C entries) \<longrightarrow> length (chunked C entries ! k) = C))"
proof -
  from assms have pos: "0 < C" by simp
  let ?n = "(length entries + C - 1) div C"
  have closed: "chunked C entries = map (\<lambda>k. take C (drop (k * C) entries)) [0..<?n]"
    using py_range_closed [OF pos, of 0 "length entries"]
    by (simp add: chunked_def slice_def comp_def)
  have len: "length (chunked C entries) = ?n"
    by (simp add: closed)
  have cat: "concat (chunked C entries) = entries"
    using concat_chunks_from [OF pos, of entries 0] by (simp add: chunked_def)
  have each: "chunked C entries ! k = take C (drop (k * C) entries)
            \<and> chunked C entries ! k \<noteq> []
            \<and> length (chunked C entries ! k) \<le> C
            \<and> (Suc k < length (chunked C entries) \<longrightarrow> length (chunked C entries ! k) = C)"
    if k: "k < length (chunked C entries)" for k
  proof -
    from k have kn: "k < ?n" by (simp add: len)
    have nth: "chunked C entries ! k = take C (drop (k * C) entries)"
      using kn by (simp add: closed)
    from kn have lt: "k * C < length entries"
      using chunk_start_in_range [OF pos] by blast
    have full: "length (chunked C entries ! k) = C" if "Suc k < length (chunked C entries)"
    proof -
      from that have "Suc k < ?n" by (simp add: len)
      then have "Suc k * C < length entries"
        using chunk_start_in_range [OF pos] by blast
      then show ?thesis by (simp add: nth)
    qed
    from lt pos show ?thesis
      using nth full by simp
  qed
  from each have every:
    "\<forall>k < length (chunked C entries).
        chunked C entries ! k = take C (drop (k * C) entries)
      \<and> chunked C entries ! k \<noteq> []
      \<and> length (chunked C entries ! k) \<le> C
      \<and> (Suc k < length (chunked C entries) \<longrightarrow> length (chunked C entries ! k) = C)"
    by blast
  show ?thesis
    using len cat every chunk_size_def by blast
qed

theorem chunked_lossless_ordered_witness:
  "(1::nat) \<le> 2
   \<and> length (chunked 2 [10, 20, 30, 40, 50 :: nat]) = 3
   \<and> concat (chunked 2 [10, 20, 30, 40, 50 :: nat]) = [10, 20, 30, 40, 50]
   \<and> chunked 2 [10, 20, 30, 40, 50 :: nat] ! 2 = [50]"
proof -
  have h: "(1::nat) \<le> 2" by simp
  have c: "chunked 2 [10, 20, 30, 40, 50 :: nat] = [[10, 20], [30, 40], [50]]"
    by (simp add: chunked_def slice_def py_range.simps)
  show ?thesis
    using h chunked_lossless_ordered [OF h, of "[10, 20, 30, 40, 50 :: nat]"]
    by (simp add: c)
qed


section \<open>Properties of the batch loader\<close>

lemma and_then_Success_iff:
  "and_then m f = Success y \<longleftrightarrow> (\<exists>x. m = Success x \<and> f x = Success y)"
  by (cases m) (simp_all add: and_then_def)

lemma and_then_simps [simp]:
  "and_then (Failure e) f = Failure e"
  "and_then (Success x) f = f x"
  by (simp_all add: and_then_def)

lemma insert_chunk_failure:
  "flush refuses s chunk = Failure e \<Longrightarrow> insert_chunk refuses s chunk = (s, Failure e)"
  by (simp add: insert_chunk_def)

lemma flush_Success_iff:
  "flush refuses s chunk = Success s' \<longleftrightarrow>
     flush_error refuses chunk = None \<and> list_all json_serializable chunk
     \<and> constraints_ok (committed s @ flushed s @ chunk)
     \<and> s' = s\<lparr>flushed := flushed s @ chunk\<rparr>"
  by (auto simp: flush_def split: option.splits)

lemma insert_chunk_Success_iff:
  "insert_chunk refuses s chunk = (s', Success ()) \<longleftrightarrow>
     flush_error refuses chunk = None \<and> list_all json_serializable chunk
     \<and> constraints_ok (committed s @ flushed s @ chunk)
     \<and> commit_error refuses (flushed s @ chunk) = None
     \<and> s' = \<lparr>committed = committed s @ flushed s @ chunk, flushed = []\<rparr>"
  by (auto simp: insert_chunk_def flush_def commit_def split: option.splits)

lemma insert_chunk_rejects:
  "\<not> constraints_ok (committed s @ flushed s @ chunk) \<Longrightarrow>
     \<exists>e. insert_chunk refuses s chunk = (s, Failure e)"
  by (simp add: insert_chunk_def flush_def split: option.splits)

lemma example_ids_append [simp]: "example_ids (xs @ ys) = example_ids xs @ example_ids ys"
  by (simp add: example_ids_def)

lemma sentence_ids_append [simp]: "sentence_ids (xs @ ys) = sentence_ids xs @ sentence_ids ys"
  by (simp add: sentence_ids_def)

lemma stereoset_ids_append [simp]: "stereoset_ids (xs @ ys) = stereoset_ids xs @ stereoset_ids ys"
  by (simp add: stereoset_ids_def)

lemma stored_of_insert_chunk:
  "insert_chunk refuses s chunk = (s', r) \<Longrightarrow>
     committed s' @ flushed s' = committed s @ flushed s
   \<or> committed s' @ flushed s' = committed s @ flushed s @ chunk
      \<and> constraints_ok (committed s @ flushed s @ chunk)"
  by (auto simp: insert_chunk_def flush_def commit_def split: option.splits if_splits)

lemma constraints_insert_chunk:
  "constraints_ok (committed s @ flushed s) \<Longrightarrow> insert_chunk refuses s chunk = (s', r) \<Longrightarrow>
     constraints_ok (committed s' @ flushed s')"
  using stored_of_insert_chunk [of refuses s chunk s' r] by auto

lemma stereoset_id_mem:
  "StereoSet_row d \<in> set rows \<Longrightarrow> id' d \<in> set (stereoset_ids rows)"
  by (induction rows) (auto simp: stereoset_ids_def)

lemma example_id_mem:
  "BBQ_row b \<in> set rows \<Longrightarrow> example_id b \<in> set (example_ids rows)"
  by (induction rows) (auto simp: example_ids_def)

lemma sentence_id_mem:
  "StereoSet_row d \<in> set rows \<Longrightarrow> x \<in> set (sentences d) \<Longrightarrow>
     sentence_id x \<in> set (sentence_ids rows)"
  by (induction rows) (auto simp: sentence_ids_def)

lemma shared_example_id_rejected:
  "x \<in> set (example_ids stored) \<Longrightarrow> x \<in> set (example_ids chunk) \<Longrightarrow>
     \<not> constraints_ok (stored @ chunk)"
  by (auto simp: constraints_ok_def)

lemma shared_sentence_id_rejected:
  "x \<in> set (sentence_ids stored) \<Longrightarrow> x \<in> set (sentence_ids chunk) \<Longrightarrow>
     \<not> constraints_ok (stored @ chunk)"
  by (auto simp: constraints_ok_def)

lemma shared_stereoset_id_rejected:
  "x \<in> set (stereoset_ids stored) \<Longrightarrow> x \<in> set (stereoset_ids chunk) \<Longrightarrow>
     \<not> constraints_ok (stored @ chunk)"
  by (auto simp: constraints_ok_def)

text \<open>
  C10. \<^verbatim>\<open>StereoSet.id\<close> is the primary key, taken from the source: once a chunk holding a
  document is loaded, the load of a later chunk holding a document with the same id fails
  and stores nothing.
\<close>
theorem duplicate_document_id_fails:
  assumes "insert_chunk refuses s first = (s1, Success ())"
    and "StereoSet_row d1 \<in> set first"
    and "StereoSet_row d2 \<in> set later"
    and "id' d2 = id' d1"
  shows "\<exists>e. insert_chunk refuses s1 later = (s1, Failure e)"
proof -
  from assms(1) have stored: "committed s1 @ flushed s1 = committed s @ flushed s @ first"
    by (simp add: insert_chunk_Success_iff)
  have "id' d1 \<in> set (stereoset_ids (committed s1 @ flushed s1))"
    using assms(2) by (simp add: stored stereoset_id_mem)
  moreover have "id' d1 \<in> set (stereoset_ids later)"
    using assms(3,4) stereoset_id_mem by metis
  ultimately have "\<not> constraints_ok ((committed s1 @ flushed s1) @ later)"
    by (rule shared_stereoset_id_rejected)
  then have "\<not> constraints_ok (committed s1 @ flushed s1 @ later)"
    by simp
  then show ?thesis by (rule insert_chunk_rejects)
qed


lemma chunked_Nil: "chunked c [] = []"
  by (simp add: chunked_def py_range.simps)

lemma chunked_single:
  assumes "xs \<noteq> []" "length xs \<le> c"
  shows "chunked c xs = [xs]"
proof -
  from assms have c: "0 < c" by (cases xs) auto
  have "py_range c (length xs) c = []"
    using assms(2) by (simp add: py_range.simps)
  moreover have "py_range 0 (length xs) c = 0 # py_range (0 + c) (length xs) c"
    using assms(1) c by (subst py_range.simps) simp
  ultimately have "py_range 0 (length xs) c = [0]" by simp
  then show ?thesis
    using assms(2) by (simp add: chunked_def slice_def)
qed

lemma example_ids_BBQ_rows [simp]: "example_ids (map BBQ_row bs) = map example_id bs"
  by (induction bs) (simp_all add: example_ids_def)

lemma sentence_ids_BBQ_rows [simp]: "sentence_ids (map BBQ_row bs) = []"
  by (induction bs) (simp_all add: sentence_ids_def)

lemma stereoset_ids_BBQ_rows [simp]: "stereoset_ids (map BBQ_row bs) = []"
  by (induction bs) (simp_all add: stereoset_ids_def)

lemma load_bbq_category_parsed:
  assumes "path_exists fs (bbq_dir @ [cat @ ''.jsonl''])"
    and "parse_bbq_file fs (bbq_dir @ [cat @ ''.jsonl'']) cat = Success entries"
  shows "load_bbq_category refuses fs bbq_dir st cat
           = load_entries refuses BBQ_family cat st (map BBQ_row entries)"
  using assms by (simp add: load_bbq_category_def)

lemma load_stereoset_file_parsed:
  assumes "path_exists fs (stereoset_dir @ [filename])"
    and "parse_stereoset_file fs (stereoset_dir @ [filename]) entry_type = Success entries"
  shows "load_stereoset_file refuses fs stereoset_dir st (filename, entry_type)
           = load_entries refuses StereoSet_family filename st (map StereoSet_row entries)"
  using assms by (simp add: load_stereoset_file_def)

lemma failures_awaited [simp]: "failures (snd (insert_chunks refuses s chunks)) = []"
  by (induction chunks arbitrary: s) (simp_all add: failures_def split_def Let_def)

lemma load_entries_logs_count:
  "load_entries refuses fam name (s, lg) entries
     = (fst (insert_chunks refuses s (chunked chunk_size entries)),
        lg @ [(INFO, Loaded (length entries) fam name)])"
proof -
  obtain s' results
    where r: "insert_chunks refuses s (chunked chunk_size entries) = (s', results)"
    by (cases "insert_chunks refuses s (chunked chunk_size entries)")
  from failures_awaited [of refuses s "chunked chunk_size entries"] r
  have "failures results = []" by simp
  with r show ?thesis
    by (simp add: load_entries_def)
qed

lemma load_entries_rejected_chunk:
  assumes "entries \<noteq> []" "length entries \<le> chunk_size"
    and "\<not> constraints_ok (committed s @ flushed s @ entries)"
  shows "fst (load_entries refuses fam name (s, lg) entries) = s"
proof -
  from insert_chunk_rejects [OF assms(3)] obtain e
    where "insert_chunk refuses s entries = (s, Failure e)" by blast
  then show ?thesis
    by (simp add: load_entries_logs_count chunked_single [OF assms(1,2)])
qed

lemma sentence_ids_map_StereoSet_row:
  "sentence_ids (map StereoSet_row docs) = concat (map (\<lambda>d. map sentence_id (sentences d)) docs)"
  by (induction docs) (simp_all add: sentence_ids_def)

text \<open>
  C3, as the code has it. Loading a chunk never leaves two Entries with one \<^verbatim>\<open>example_id\<close>
  or two Sentences with one \<^verbatim>\<open>sentence_id\<close> in the session. A chunk that holds an Entry or
  a Sentence whose key is already written, or occurs twice in the chunk, fails as a whole:
  \<^verbatim>\<open>insert_chunk\<close> returns a failure and the session is as it was. Two Sentences with one
  \<^verbatim>\<open>sentence_id\<close> in two chunks loaded one after the other give one success and one
  failure; in one chunk they give no success. A category file, or a document file, of at most
  1000 entities with a repeated key stores nothing.
\<close>
theorem duplicate_key_fails_whole_chunk:
  "(constraints_ok (committed s @ flushed s) \<and> insert_chunk refuses s chunk = (s', r)
      \<longrightarrow> distinct (example_ids (committed s' @ flushed s'))
        \<and> distinct (sentence_ids (committed s' @ flushed s')))
 \<and> (\<not> distinct (example_ids (committed s @ flushed s @ chunk))
      \<or> \<not> distinct (sentence_ids (committed s @ flushed s @ chunk))
      \<longrightarrow> (\<exists>e. insert_chunk refuses s chunk = (s, Failure e)))
 \<and> (insert_chunk refuses s first = (s1, Success ())
      \<and> StereoSet_row d1 \<in> set first \<and> x1 \<in> set (sentences d1)
      \<and> StereoSet_row d2 \<in> set later \<and> x2 \<in> set (sentences d2)
      \<and> sentence_id x2 = sentence_id x1
      \<longrightarrow> (\<exists>e. insert_chunk refuses s1 later = (s1, Failure e)))
 \<and> (path_exists fs (bbq_dir @ [cat @ ''.jsonl''])
      \<and> parse_bbq_file fs (bbq_dir @ [cat @ ''.jsonl'']) cat = Success entries
      \<and> entries \<noteq> [] \<and> length entries \<le> chunk_size
      \<and> \<not> distinct (map example_id entries)
      \<longrightarrow> fst (load_bbq_category refuses fs bbq_dir (s, lg) cat) = s)
 \<and> (path_exists fs' (stereoset_dir @ [filename])
      \<and> parse_stereoset_file fs' (stereoset_dir @ [filename]) entry_type = Success docs
      \<and> docs \<noteq> [] \<and> length docs \<le> chunk_size
      \<and> \<not> distinct (concat (map (\<lambda>d. map sentence_id (sentences d)) docs))
      \<longrightarrow> fst (load_stereoset_file refuses fs' stereoset_dir (s, lg) (filename, entry_type)) = s)"
proof (intro conjI impI)
  assume "constraints_ok (committed s @ flushed s) \<and> insert_chunk refuses s chunk = (s', r)"
  then have "constraints_ok (committed s' @ flushed s')"
    using constraints_insert_chunk by blast
  then show "distinct (example_ids (committed s' @ flushed s'))"
    and "distinct (sentence_ids (committed s' @ flushed s'))"
    by (simp_all add: constraints_ok_def)
next
  assume "\<not> distinct (example_ids (committed s @ flushed s @ chunk))
        \<or> \<not> distinct (sentence_ids (committed s @ flushed s @ chunk))"
  then have "\<not> constraints_ok (committed s @ flushed s @ chunk)"
    by (auto simp: constraints_ok_def)
  then show "\<exists>e. insert_chunk refuses s chunk = (s, Failure e)"
    by (rule insert_chunk_rejects)
next
  assume a: "insert_chunk refuses s first = (s1, Success ())
      \<and> StereoSet_row d1 \<in> set first \<and> x1 \<in> set (sentences d1)
      \<and> StereoSet_row d2 \<in> set later \<and> x2 \<in> set (sentences d2)
      \<and> sentence_id x2 = sentence_id x1"
  then have stored: "committed s1 @ flushed s1 = committed s @ flushed s @ first"
    by (simp add: insert_chunk_Success_iff)
  from a have "sentence_id x1 \<in> set (sentence_ids first)"
    using sentence_id_mem by blast
  then have "sentence_id x1 \<in> set (sentence_ids (committed s1 @ flushed s1))"
    by (simp add: stored)
  moreover from a have "sentence_id x2 \<in> set (sentence_ids later)"
    using sentence_id_mem by blast
  then have "sentence_id x1 \<in> set (sentence_ids later)"
    using a by simp
  ultimately have "\<not> constraints_ok ((committed s1 @ flushed s1) @ later)"
    by (rule shared_sentence_id_rejected)
  then have "\<not> constraints_ok (committed s1 @ flushed s1 @ later)"
    by simp
  then show "\<exists>e. insert_chunk refuses s1 later = (s1, Failure e)"
    by (rule insert_chunk_rejects)
next
  assume a: "path_exists fs (bbq_dir @ [cat @ ''.jsonl''])
      \<and> parse_bbq_file fs (bbq_dir @ [cat @ ''.jsonl'']) cat = Success entries
      \<and> entries \<noteq> [] \<and> length entries \<le> chunk_size
      \<and> \<not> distinct (map example_id entries)"
  then have "\<not> constraints_ok (committed s @ flushed s @ map BBQ_row entries)"
    by (simp add: constraints_ok_def)
  moreover from a have "map BBQ_row entries \<noteq> []" "length (map BBQ_row entries) \<le> chunk_size"
    by simp_all
  ultimately have "fst (load_entries refuses BBQ_family cat (s, lg) (map BBQ_row entries)) = s"
    using load_entries_rejected_chunk by blast
  then show "fst (load_bbq_category refuses fs bbq_dir (s, lg) cat) = s"
    using a by (simp add: load_bbq_category_parsed)
next
  assume a: "path_exists fs' (stereoset_dir @ [filename])
      \<and> parse_stereoset_file fs' (stereoset_dir @ [filename]) entry_type = Success docs
      \<and> docs \<noteq> [] \<and> length docs \<le> chunk_size
      \<and> \<not> distinct (concat (map (\<lambda>d. map sentence_id (sentences d)) docs))"
  then have "\<not> constraints_ok (committed s @ flushed s @ map StereoSet_row docs)"
    by (simp add: constraints_ok_def sentence_ids_map_StereoSet_row)
  moreover from a have "map StereoSet_row docs \<noteq> []"
    "length (map StereoSet_row docs) \<le> chunk_size"
    by simp_all
  ultimately have "fst (load_entries refuses StereoSet_family filename (s, lg)
                          (map StereoSet_row docs)) = s"
    using load_entries_rejected_chunk by blast
  then show "fst (load_stereoset_file refuses fs' stereoset_dir (s, lg) (filename, entry_type)) = s"
    using a by (simp add: load_stereoset_file_parsed)
qed

section \<open>Properties of the flat-category parser\<close>

lemma getitem_Success_iff:
  "getitem x key = Success v \<longleftrightarrow> (\<exists>kv. x = JObj kv \<and> map_of kv key = Some v)"
  by (auto simp: getitem_def split: json.splits option.splits)

lemma setitem_Success_iff:
  "setitem x key v = Success y \<longleftrightarrow> (\<exists>kv. x = JObj kv \<and> y = JObj (AList.update key v kv))"
  by (auto simp: setitem_def split: json.splits)

lemma for_each_Success_all:
  "for_each f xs = Success ys \<Longrightarrow> x \<in> set xs \<Longrightarrow> \<exists>y. f x = Success y"
  by (induction xs arbitrary: ys) (auto simp: and_then_Success_iff)

lemma for_each_length:
  "for_each f xs = Success ys \<Longrightarrow> length ys = length xs"
  by (induction xs arbitrary: ys) (auto simp: and_then_Success_iff)

lemma for_each_nth:
  "for_each f xs = Success ys \<Longrightarrow> i < length xs \<Longrightarrow> f (xs ! i) = Success (ys ! i)"
proof (induction xs arbitrary: ys i)
  case Nil
  then show ?case by simp
next
  case (Cons x xs)
  then obtain y ys' where "f x = Success y" "for_each f xs = Success ys'" "ys = y # ys'"
    by (auto simp: and_then_Success_iff)
  with Cons show ?case by (cases i) auto
qed

lemma for_each_all_Success:
  "(\<And>x. x \<in> set xs \<Longrightarrow> \<exists>y. f x = Success y) \<Longrightarrow> \<exists>ys. for_each f xs = Success ys"
proof (induction xs)
  case Nil
  then show ?case by simp
next
  case (Cons x xs)
  then obtain y where "f x = Success y" by auto
  moreover from Cons obtain ys where "for_each f xs = Success ys" by auto
  ultimately show ?case by simp
qed

lemma str_nat_digits [simp]:
  "str_nat 0 = ''0''" "str_nat (Suc 0) = ''1''" "str_nat 2 = ''2''"
  by (simp_all add: str_nat.simps)

lemma upt_3: "[0..<3] = [0, Suc 0, 2]"
  by (simp add: upt_rec)

lemma build_answer_Success:
  assumes "build_answer data i = Success a"
  shows "\<exists>kv info t x. data = JObj kv \<and> map_of kv (''ans'' @ str_nat i) = Some t
           \<and> map_of kv ''answer_info'' = Some (JObj info)
           \<and> map_of info (''ans'' @ str_nat i) = Some x
           \<and> index a = i"
  using assms
  by (auto simp: build_answer_def Let_def and_then_Success_iff getitem_Success_iff)

lemma AdditionalMetadata_init_Success:
  assumes "AdditionalMetadata_init m = Success am"
  shows "\<exists>kv. m = JObj kv \<and> \<not> list_ex (lacks_key kv) metadata_keys"
  using assms
  by (auto simp: AdditionalMetadata_init_def and_then_Success_iff field_def metadata_keys_def
      lacks_key_def split: json.splits option.splits)


lemma answers_Success:
  assumes "for_each (build_answer (JObj kv)) [0..<3] = Success as"
  shows "map_of kv ''ans0'' \<noteq> None \<and> map_of kv ''ans1'' \<noteq> None \<and> map_of kv ''ans2'' \<noteq> None
       \<and> (\<exists>info. map_of kv ''answer_info'' = Some (JObj info)
              \<and> \<not> list_ex (lacks_key info) answer_keys)
       \<and> map index as = [0, 1, 2]"
proof -
  from assms obtain a0 a1 a2 where as: "as = [a0, a1, a2]"
    and b0: "build_answer (JObj kv) 0 = Success a0"
    and b1: "build_answer (JObj kv) (Suc 0) = Success a1"
    and b2: "build_answer (JObj kv) 2 = Success a2"
    by (auto simp: upt_3 and_then_Success_iff)
  from build_answer_Success [OF b0] build_answer_Success [OF b1] build_answer_Success [OF b2]
  show ?thesis
    by (auto simp: as answer_keys_def lacks_key_def)
qed

lemma parse_bbq_line_Success:
  assumes "parse_bbq_line cat line = Success b"
  shows "\<not> malformed line \<and> map index (answers b) = [0, 1, 2]
       \<and> (\<exists>data. line = Success data \<and> getitem data ''example_id'' = Success (example_id b))"
proof -
  from assms obtain loaded where line: "line = Success loaded"
    by (cases line) (simp_all add: parse_bbq_line_def)
  from assms line obtain kv where loaded: "loaded = JObj kv"
    by (auto simp: parse_bbq_line_def and_then_Success_iff setitem_Success_iff)
  let ?kv = "AList.update ''category'' (JStr cat) kv"
  from assms line loaded obtain as raw_meta add_meta
    where as: "for_each (build_answer (JObj ?kv)) [0..<3] = Success as"
      and rm: "map_of ?kv ''additional_metadata'' = Some raw_meta"
      and am: "AdditionalMetadata_init raw_meta = Success add_meta"
      and keys: "map_of ?kv ''example_id'' = Some (example_id b)"
        "map_of ?kv ''question_index'' \<noteq> None"
        "map_of ?kv ''question_polarity'' \<noteq> None"
        "map_of ?kv ''context_condition'' \<noteq> None"
        "map_of ?kv ''context'' \<noteq> None"
        "map_of ?kv ''question'' \<noteq> None"
        "map_of ?kv ''label'' \<noteq> None"
      and ans: "answers b = as"
    by (auto simp: parse_bbq_line_def and_then_Success_iff setitem_def getitem_Success_iff)
  note a = answers_Success [OF as]
  from AdditionalMetadata_init_Success [OF am] obtain m
    where m: "raw_meta = JObj m" "\<not> list_ex (lacks_key m) metadata_keys" by blast
  have "\<not> lacks_required_field (JObj kv)"
    using a rm m keys
    by (auto simp: lacks_required_field_def required_keys_def lacks_key_def update_conv')
  moreover have "getitem (JObj kv) ''example_id'' = Success (example_id b)"
    using keys(1) by (simp add: getitem_def update_conv')
  ultimately show ?thesis
    using a ans by (simp add: malformed_def line loaded)
qed


lemma has_iff: "has kv P key \<longleftrightarrow> (\<exists>v. map_of kv key = Some v \<and> P v)"
  by (simp add: has_def split: option.splits)

lemma is_pair_getitem_1: "is_pair v \<Longrightarrow> \<exists>t. getitem_1 v = Success t"
  by (cases v) (simp_all add: is_pair_def getitem_1_def)

lemma is_str_as_str: "is_str v \<Longrightarrow> \<exists>s. as_str v = Success s"
  by (cases v) (simp_all add: is_str_def as_str_def)

lemma is_str_list_as_str_list: "is_str_list v \<Longrightarrow> \<exists>ss. as_str_list v = Success ss"
proof (cases v)
  case (JArr xs)
  assume "is_str_list v"
  with JArr have "\<And>x. x \<in> set xs \<Longrightarrow> \<exists>s. as_str x = Success s"
    by (simp add: is_str_list_def list_all_iff is_str_as_str)
  then have "\<exists>ss. for_each as_str xs = Success ss"
    by (rule for_each_all_Success)
  with JArr show ?thesis by (simp add: as_str_list_def)
qed (simp_all add: is_str_list_def)

lemma build_answer_well_formed:
  assumes "map_of kv key = Some t" "key = ''ans'' @ str_nat i"
    and "map_of kv ''answer_info'' = Some (JObj info)" "has info is_pair key"
  shows "\<exists>a. build_answer (JObj kv) i = Success a"
proof -
  from assms(4) obtain x where x: "map_of info key = Some x" "is_pair x"
    by (auto simp: has_iff)
  from is_pair_getitem_1 [OF x(2)] obtain tg where "getitem_1 x = Success tg" ..
  with assms(1-3) x(1) show ?thesis
    by (simp add: build_answer_def getitem_def)
qed

lemma metadata_well_formed:
  assumes "has m is_str ''subcategory''" "has m is_str_list ''stereotyped_groups''"
    "has m is_str ''version''" "has m is_str ''source''"
  shows "\<exists>am. AdditionalMetadata_init (JObj m) = Success am"
proof -
  from assms obtain v1 v2 v3 v4 where v:
    "map_of m ''subcategory'' = Some v1" "is_str v1"
    "map_of m ''stereotyped_groups'' = Some v2" "is_str_list v2"
    "map_of m ''version'' = Some v3" "is_str v3"
    "map_of m ''source'' = Some v4" "is_str v4"
    by (auto simp: has_iff)
  from is_str_as_str [OF v(2)] is_str_list_as_str_list [OF v(4)]
    is_str_as_str [OF v(6)] is_str_as_str [OF v(8)]
  obtain s1 s2 s3 s4 where "as_str v1 = Success s1" "as_str_list v2 = Success s2"
    "as_str v3 = Success s3" "as_str v4 = Success s4" by blast
  with v show ?thesis
    by (simp add: AdditionalMetadata_init_def field_def)
qed

lemma well_formedE:
  assumes "well_formed data"
  obtains kv info m where "data = JObj kv"
    and "list_all (has kv (\<lambda>v. True)) required_keys"
    and "map_of kv ''answer_info'' = Some (JObj info)"
    and "list_all (has info is_pair) answer_keys"
    and "map_of kv ''additional_metadata'' = Some (JObj m)"
    and "has m is_str ''subcategory''" and "has m is_str_list ''stereotyped_groups''"
    and "has m is_str ''version''" and "has m is_str ''source''"
proof -
  from assms obtain kv where data: "data = JObj kv"
    by (cases data) (simp_all add: well_formed_def)
  from assms data have req: "list_all (has kv (\<lambda>v. True)) required_keys"
    by (simp add: well_formed_def)
  from assms data have "has kv (\<lambda>answer_info.
             case answer_info of
               JObj info \<Rightarrow> list_all (has info is_pair) answer_keys
             | _ \<Rightarrow> False) ''answer_info''"
    by (simp add: well_formed_def)
  then obtain ai where ai: "map_of kv ''answer_info'' = Some ai"
    "case ai of JObj info \<Rightarrow> list_all (has info is_pair) answer_keys | _ \<Rightarrow> False"
    unfolding has_iff by blast
  from ai(2) obtain info where info: "ai = JObj info" "list_all (has info is_pair) answer_keys"
    by (cases ai) simp_all
  from assms data have "has kv (\<lambda>meta.
             case meta of
               JObj m \<Rightarrow> has m is_str ''subcategory'' \<and> has m is_str_list ''stereotyped_groups''
                         \<and> has m is_str ''version'' \<and> has m is_str ''source''
             | _ \<Rightarrow> False) ''additional_metadata''"
    by (simp add: well_formed_def)
  then obtain rm where rm: "map_of kv ''additional_metadata'' = Some rm"
    "case rm of JObj m \<Rightarrow> has m is_str ''subcategory'' \<and> has m is_str_list ''stereotyped_groups''
                         \<and> has m is_str ''version'' \<and> has m is_str ''source''
             | _ \<Rightarrow> False"
    unfolding has_iff [of kv] by blast
  from rm(2) obtain m where m: "rm = JObj m" "has m is_str ''subcategory''"
    "has m is_str_list ''stereotyped_groups''" "has m is_str ''version''" "has m is_str ''source''"
    by (cases rm) simp_all
  from data req ai(1) info rm(1) m show thesis
    using that by simp
qed

lemma parse_bbq_line_well_formed:
  assumes "well_formed data"
  shows "\<exists>b. parse_bbq_line cat (Success data) = Success b"
proof -
  from assms obtain kv info m where data: "data = JObj kv"
    and req: "list_all (has kv (\<lambda>v. True)) required_keys"
    and info0: "map_of kv ''answer_info'' = Some (JObj info)"
    and pairs: "list_all (has info is_pair) answer_keys"
    and m0: "map_of kv ''additional_metadata'' = Some (JObj m)"
    and m: "has m is_str ''subcategory''" "has m is_str_list ''stereotyped_groups''"
      "has m is_str ''version''" "has m is_str ''source''"
    by (rule well_formedE)
  let ?kv = "AList.update ''category'' (JStr cat) kv"
  from req obtain t0 t1 t2 v1 v2 v3 v4 v5 v6 v7 where keys:
    "map_of ?kv ''ans0'' = Some t0" "map_of ?kv ''ans1'' = Some t1" "map_of ?kv ''ans2'' = Some t2"
    "map_of ?kv ''example_id'' = Some v1" "map_of ?kv ''question_index'' = Some v2"
    "map_of ?kv ''question_polarity'' = Some v3" "map_of ?kv ''context_condition'' = Some v4"
    "map_of ?kv ''context'' = Some v5" "map_of ?kv ''question'' = Some v6"
    "map_of ?kv ''label'' = Some v7"
    by (auto simp: required_keys_def has_iff update_conv')
  have cat: "map_of ?kv ''category'' = Some (JStr cat)"
    by (simp add: update_conv')
  from info0 have info: "map_of ?kv ''answer_info'' = Some (JObj info)"
    by (simp add: update_conv')
  from m0 have meta: "map_of ?kv ''additional_metadata'' = Some (JObj m)"
    by (simp add: update_conv')
  from pairs have p: "has info is_pair ''ans0''" "has info is_pair ''ans1''"
    "has info is_pair ''ans2''"
    by (simp_all add: answer_keys_def)
  from build_answer_well_formed [OF keys(1) _ info p(1), of 0]
    build_answer_well_formed [OF keys(2) _ info p(2), of "Suc 0"]
    build_answer_well_formed [OF keys(3) _ info p(3), of 2]
  obtain a0 a1 a2 where "build_answer (JObj ?kv) 0 = Success a0"
    "build_answer (JObj ?kv) (Suc 0) = Success a1" "build_answer (JObj ?kv) 2 = Success a2"
    by auto
  then have as: "for_each (build_answer (JObj ?kv)) [0..<3] = Success [a0, a1, a2]"
    by (simp add: upt_3)
  from metadata_well_formed [OF m] obtain am
    where am: "AdditionalMetadata_init (JObj m) = Success am" ..
  show ?thesis
    unfolding parse_bbq_line_def data
    by (simp add: setitem_def as getitem_def keys cat info meta am)
qed


section \<open>Properties of the orchestrator\<close>

lemma parse_bbq_file_well_formed:
  assumes "open_read fs p = Success lines" "list_all well_formed_line lines"
  shows "\<exists>entries. parse_bbq_file fs p cat = Success entries"
proof -
  have "\<exists>y. parse_bbq_line cat line = Success y" if "line \<in> set lines" for line
  proof -
    from that assms(2) have "well_formed_line line" by (simp add: list_all_iff)
    then obtain data where "line = Success data" "well_formed data"
      by (cases line) (simp_all add: well_formed_line_def)
    then show ?thesis using parse_bbq_line_well_formed by blast
  qed
  then have "\<exists>entries. for_each (parse_bbq_line cat) lines = Success entries"
    by (rule for_each_all_Success)
  then show ?thesis using assms(1) by (simp add: parse_bbq_file_def)
qed

lemma open_read_exists: "open_read fs p = Success c \<Longrightarrow> path_exists fs p"
  by (auto simp: open_read_def path_exists_def split: option.splits)

lemma well_formed_file_parses:
  assumes "open_read fs p = Success lines"
    and "list_all well_formed_line lines"
  shows "\<exists>entries.
           parse_bbq_file fs p cat = Success entries
         \<and> length entries = length lines
         \<and> (\<forall>b \<in> set entries. length (answers b) = 3 \<and> map index (answers b) = [0, 1, 2])
         \<and> (\<forall>i < length lines.
               \<exists>data. lines ! i = Success data
                 \<and> getitem data ''example_id'' = Success (example_id (entries ! i)))"
proof -
  from parse_bbq_file_well_formed [OF assms] obtain entries
    where parsed: "parse_bbq_file fs p cat = Success entries" ..
  with assms(1) have each: "for_each (parse_bbq_line cat) lines = Success entries"
    by (simp add: parse_bbq_file_def)
  then have len: "length entries = length lines"
    by (rule for_each_length)
  have line: "parse_bbq_line cat (lines ! i) = Success (entries ! i)" if "i < length lines" for i
    using for_each_nth [OF each that] .
  have answers: "length (answers b) = 3 \<and> map index (answers b) = [0, 1, 2]"
    if "b \<in> set entries" for b
  proof -
    from that obtain i where "i < length entries" "entries ! i = b"
      by (auto simp: in_set_conv_nth)
    with line len have "parse_bbq_line cat (lines ! i) = Success b" by simp
    then have m: "map index (answers b) = [0, 1, 2]"
      using parse_bbq_line_Success by blast
    have "length (answers b) = length (map index (answers b))" by simp
    also have "\<dots> = 3" unfolding m by simp
    finally show ?thesis using m by simp
  qed
  have ids: "\<exists>data. lines ! i = Success data
               \<and> getitem data ''example_id'' = Success (example_id (entries ! i))"
    if "i < length lines" for i
    using parse_bbq_line_Success [OF line [OF that]] by blast
  from parsed len answers ids show ?thesis
    by (intro exI [of _ entries]) auto
qed

lemma parse_bbq_file_malformed:
  assumes "open_read fs p = Success lines" "list_ex malformed lines"
  shows "\<exists>e. parse_bbq_file fs p cat = Failure e"
proof (cases "parse_bbq_file fs p cat")
  case (Inl e)
  then show ?thesis by blast
next
  case (Inr entries)
  with assms(1) have each: "for_each (parse_bbq_line cat) lines = Success entries"
    by (simp add: parse_bbq_file_def)
  from assms(2) obtain line where line: "line \<in> set lines" "malformed line"
    by (auto simp: list_ex_iff)
  from for_each_Success_all [OF each line(1)] obtain b
    where "parse_bbq_line cat line = Success b" ..
  then have "\<not> malformed line"
    using parse_bbq_line_Success by blast
  with line(2) show ?thesis by simp
qed

lemma load_bbq_unfold:
  assumes "path_exists fs (base_path @ [''bbq''])" "categories = before @ cat # after"
  shows "load_bbq refuses fs s base_path
           = Success (foldl (load_bbq_category refuses fs (base_path @ [''bbq'']))
               (load_bbq_category refuses fs (base_path @ [''bbq''])
                  (foldl (load_bbq_category refuses fs (base_path @ [''bbq''])) (s, []) before)
                  cat)
               after)"
  unfolding load_bbq_def assms(2) using assms(1) by (simp add: Let_def)

lemma load_stereoset_unfold:
  assumes "path_exists fs (base_path @ [''stereoset''])" "files = before @ file # after"
  shows "load_stereoset refuses fs s base_path
           = Success (foldl (load_stereoset_file refuses fs (base_path @ [''stereoset'']))
               (load_stereoset_file refuses fs (base_path @ [''stereoset''])
                  (foldl (load_stereoset_file refuses fs (base_path @ [''stereoset''])) (s, []) before)
                  file)
               after)"
  unfolding load_stereoset_def assms(2) using assms(1) by (simp add: Let_def)

text \<open>
  C5. When a category file holds at least one malformed line (one that is not valid JSON, or
  that lacks a required key such as \<^verbatim>\<open>ans{i}\<close> of \<^verbatim>\<open>answer_info\<close>), \<^verbatim>\<open>parse_bbq_file\<close> returns a
  failure for the whole file; the orchestrator stores nothing from that source, logs the
  failure, and goes on with the remaining categories.
\<close>
theorem malformed_line_fails_whole_file:
  assumes "open_read fs (base_path @ [''bbq'', cat @ ''.jsonl'']) = Success lines"
    and "list_ex malformed lines"
  shows "(\<exists>e. parse_bbq_file fs (base_path @ [''bbq'', cat @ ''.jsonl'']) cat = Failure e
            \<and> load_bbq_category refuses fs (base_path @ [''bbq'']) (s, lg) cat
                = (s, lg @ [(ERROR, Failed_parsing BBQ_family cat e)])
            \<and> (path_exists fs (base_path @ [''bbq'']) \<and> categories = before @ cat # after
               \<longrightarrow> load_bbq refuses fs s0 base_path
                   = Success (foldl (load_bbq_category refuses fs (base_path @ [''bbq'']))
                       (fst (foldl (load_bbq_category refuses fs (base_path @ [''bbq'']))
                              (s0, []) before),
                        snd (foldl (load_bbq_category refuses fs (base_path @ [''bbq'']))
                              (s0, []) before)
                          @ [(ERROR, Failed_parsing BBQ_family cat e)])
                       after)))"
proof -
  let ?dir = "base_path @ [''bbq'']"
  let ?p = "?dir @ [cat @ ''.jsonl'']"
  from assms have op: "open_read fs ?p = Success lines" by simp
  from parse_bbq_file_malformed [OF op assms(2)] obtain e
    where e: "parse_bbq_file fs ?p cat = Failure e" ..
  have step: "load_bbq_category refuses fs ?dir st cat
                = (fst st, snd st @ [(ERROR, Failed_parsing BBQ_family cat e)])" for st
    using e open_read_exists [OF op] by (simp add: load_bbq_category_def)
  have "load_bbq refuses fs s0 base_path
          = Success (foldl (load_bbq_category refuses fs ?dir)
              (fst (foldl (load_bbq_category refuses fs ?dir) (s0, []) before),
               snd (foldl (load_bbq_category refuses fs ?dir) (s0, []) before)
                 @ [(ERROR, Failed_parsing BBQ_family cat e)])
              after)"
    if "path_exists fs ?dir \<and> categories = before @ cat # after"
    using that load_bbq_unfold [of fs base_path before cat after refuses s0]
    by (simp add: step)
  with e step [of "(s, lg)"] show ?thesis
    by (intro exI [of _ e]) simp
qed

text \<open>
  C6. For both families: when the family's directory does not exist the load raises
  \<^verbatim>\<open>FileNotFoundError\<close>; when the directory exists and a source file does not, that source
  leaves the session unchanged and adds one warning and no error to the log, and the
  remaining sources are processed.
\<close>
theorem missing_directory_fatal_missing_file_skipped:
  "(\<not> path_exists fs (base_path @ [''bbq''])
      \<longrightarrow> load_bbq refuses fs s base_path = Failure FileNotFoundError)
 \<and> (\<not> path_exists fs' (base_path @ [''stereoset''])
      \<longrightarrow> load_stereoset refuses fs' s base_path = Failure FileNotFoundError)
 \<and> (\<not> path_exists fs (bbq_dir @ [cat @ ''.jsonl''])
      \<longrightarrow> load_bbq_category refuses fs bbq_dir (s, lg) cat
          = (s, lg @ [(WARNING, Skipping_missing_file (bbq_dir @ [cat @ ''.jsonl'']))]))
 \<and> (\<not> path_exists fs' (stereoset_dir @ [filename])
      \<longrightarrow> load_stereoset_file refuses fs' stereoset_dir (s, lg) (filename, entry_type)
          = (s, lg @ [(WARNING, Skipping_missing_file (stereoset_dir @ [filename]))]))
 \<and> (path_exists fs (base_path @ [''bbq''])
      \<and> \<not> path_exists fs (base_path @ [''bbq'', cat @ ''.jsonl''])
      \<and> categories = before @ cat # after
      \<longrightarrow> load_bbq refuses fs s base_path
          = Success (foldl (load_bbq_category refuses fs (base_path @ [''bbq'']))
              (fst (foldl (load_bbq_category refuses fs (base_path @ [''bbq''])) (s, []) before),
               snd (foldl (load_bbq_category refuses fs (base_path @ [''bbq''])) (s, []) before)
                 @ [(WARNING, Skipping_missing_file (base_path @ [''bbq'', cat @ ''.jsonl'']))])
              after))
 \<and> (path_exists fs' (base_path @ [''stereoset''])
      \<and> \<not> path_exists fs' (base_path @ [''stereoset'', filename])
      \<and> files = before' @ (filename, entry_type) # after'
      \<longrightarrow> load_stereoset refuses fs' s base_path
          = Success (foldl (load_stereoset_file refuses fs' (base_path @ [''stereoset'']))
              (fst (foldl (load_stereoset_file refuses fs' (base_path @ [''stereoset''])) (s, []) before'),
               snd (foldl (load_stereoset_file refuses fs' (base_path @ [''stereoset''])) (s, []) before')
                 @ [(WARNING, Skipping_missing_file (base_path @ [''stereoset'', filename]))])
              after'))"
proof (intro conjI impI)
  show "load_bbq refuses fs s base_path = Failure FileNotFoundError"
    if "\<not> path_exists fs (base_path @ [''bbq''])"
    using that by (simp add: load_bbq_def)
  show "load_stereoset refuses fs' s base_path = Failure FileNotFoundError"
    if "\<not> path_exists fs' (base_path @ [''stereoset''])"
    using that by (simp add: load_stereoset_def)
  show "load_bbq_category refuses fs bbq_dir (s, lg) cat
          = (s, lg @ [(WARNING, Skipping_missing_file (bbq_dir @ [cat @ ''.jsonl'']))])"
    if "\<not> path_exists fs (bbq_dir @ [cat @ ''.jsonl''])"
    using that by (simp add: load_bbq_category_def)
  show "load_stereoset_file refuses fs' stereoset_dir (s, lg) (filename, entry_type)
          = (s, lg @ [(WARNING, Skipping_missing_file (stereoset_dir @ [filename]))])"
    if "\<not> path_exists fs' (stereoset_dir @ [filename])"
    using that by (simp add: load_stereoset_file_def)
  show "load_bbq refuses fs s base_path
          = Success (foldl (load_bbq_category refuses fs (base_path @ [''bbq'']))
              (fst (foldl (load_bbq_category refuses fs (base_path @ [''bbq''])) (s, []) before),
               snd (foldl (load_bbq_category refuses fs (base_path @ [''bbq''])) (s, []) before)
                 @ [(WARNING, Skipping_missing_file (base_path @ [''bbq'', cat @ ''.jsonl'']))])
              after)"
    if "path_exists fs (base_path @ [''bbq''])
      \<and> \<not> path_exists fs (base_path @ [''bbq'', cat @ ''.jsonl''])
      \<and> categories = before @ cat # after"
    using that load_bbq_unfold [of fs base_path before cat after refuses s]
    by (simp add: load_bbq_category_def)
  show "load_stereoset refuses fs' s base_path
          = Success (foldl (load_stereoset_file refuses fs' (base_path @ [''stereoset'']))
              (fst (foldl (load_stereoset_file refuses fs' (base_path @ [''stereoset''])) (s, []) before'),
               snd (foldl (load_stereoset_file refuses fs' (base_path @ [''stereoset''])) (s, []) before')
                 @ [(WARNING, Skipping_missing_file (base_path @ [''stereoset'', filename]))])
              after')"
    if "path_exists fs' (base_path @ [''stereoset''])
      \<and> \<not> path_exists fs' (base_path @ [''stereoset'', filename])
      \<and> files = before' @ (filename, entry_type) # after'"
    using that load_stereoset_unfold [of fs' base_path before' "(filename, entry_type)" after' refuses s]
    by (simp add: load_stereoset_file_def)
qed

section \<open>Evaluation on the concrete inputs\<close>

lemma parse_example_line:
  "parse_bbq_line ''Age'' (Success (example_line n)) = Success (example_bbq n)"
  by (simp add: parse_bbq_line_def example_line_def bbq_line_def example_bbq_def setitem_def
      getitem_def getitem_1_def build_answer_def upt_3 AdditionalMetadata_init_def field_def
      as_str_def as_str_list_def)

lemma well_formed_example_line: "well_formed (example_line n)"
  by (simp add: well_formed_def example_line_def bbq_line_def required_keys_def answer_keys_def
      has_def is_pair_def is_str_def is_str_list_def)

lemma lacks_line_without_ans1: "lacks_required_field (line_without_ans1 n)"
  by (simp add: lacks_required_field_def line_without_ans1_def bbq_line_def required_keys_def
      answer_keys_def lacks_key_def)

lemma build_raw_document:
  "build_entry ''intersentence'' (raw_document d x) = Success (example_document d x)"
  by (simp add: build_entry_def raw_document_def example_document_def getitem_def iterate_def
      build_sentence_def build_label_def)

lemma capitalize_intersentence: "capitalize ''intersentence'' = ''Intersentence''"
  by code_simp


lemma open_age:
  "open_read (bbq_fs lines) [''datasets'', ''bbq'', ''Age.jsonl''] = Success lines"
  by (simp add: open_read_def bbq_fs_def)

lemma open_intersentence:
  "open_read (stereoset_fs document) [''datasets'', ''stereoset'', ''intersentence.json'']
     = Success document"
  by (simp add: open_read_def stereoset_fs_def)


section \<open>Properties of the nested-document parser\<close>

lemma locate_documents_dict:
  "locate_documents (JObj kv) entry_type =
     Success (let lower = (case map_of kv entry_type of Some v \<Rightarrow> v | None \<Rightarrow> JNull);
                  upper = (case map_of kv (capitalize entry_type) of Some v \<Rightarrow> v | None \<Rightarrow> JNull)
              in if truthy lower then lower else if truthy upper then upper else JObj kv)"
  by (simp add: locate_documents_def dict_get_def Let_def)

lemma truthy_JNull [simp]: "\<not> truthy JNull"
  by (simp add: truthy_def)

lemma iterate_truthy: "truthy x \<Longrightarrow> iterate x = Success ds \<Longrightarrow> ds \<noteq> []"
  by (cases x) (auto simp: truthy_def iterate_def)

lemma for_each_truthy_nonempty:
  assumes "truthy x"
  shows "and_then (iterate x) (for_each f) \<noteq> Success []"
proof
  assume "and_then (iterate x) (for_each f) = Success []"
  then obtain ds where ds: "iterate x = Success ds" "for_each f ds = Success []"
    by (auto simp: and_then_Success_iff)
  from for_each_length [OF ds(2)] have "ds = []" by simp
  with iterate_truthy [OF assms ds(1)] show False by simp
qed

lemma parse_stereoset_file_dict:
  assumes "open_read fs p = Success (Success raw)" "data_section raw = JObj kv"
    and "locate_documents (JObj kv) entry_type = Success located"
  shows "parse_stereoset_file fs p entry_type
           = and_then (iterate located) (for_each (build_entry entry_type))"
  using assms by (simp add: parse_stereoset_file_def)


lemma whole_section_fails:
  assumes "kv \<noteq> []"
  shows "and_then (iterate (JObj kv)) (for_each (build_entry entry_type)) = Failure TypeError"
proof -
  from assms obtain k x rest where kv: "kv = (k, x) # rest"
    by (cases kv) auto
  have "build_entry entry_type (JStr k) = Failure TypeError"
    by (simp add: build_entry_def getitem_def)
  then show ?thesis
    by (simp add: kv iterate_def)
qed

text \<open>
  C9. When the discriminator key is present in the data section with a false value (an empty
  array, for one), the parser does not take that value. When the value under the capitalized
  key is true, the parser's result is the documents built from that value; otherwise it
  iterates the whole data section, whose items are its keys, and its result is the failure
  \<^verbatim>\<open>TypeError\<close>. In neither case is it the empty list of documents.
\<close>
theorem falsy_discriminator_falls_back:
  assumes "open_read fs p = Success (Success raw)"
    and "data_section raw = JObj kv"
    and "map_of kv entry_type = Some v"
    and "\<not> truthy v"
  shows "locate_documents (JObj kv) entry_type
           = Success (case map_of kv (capitalize entry_type) of
                        Some w \<Rightarrow> if truthy w then w else JObj kv
                      | None \<Rightarrow> JObj kv)
       \<and> locate_documents (JObj kv) entry_type \<noteq> Success v
       \<and> parse_stereoset_file fs p entry_type
           = (case map_of kv (capitalize entry_type) of
                Some w \<Rightarrow>
                  if truthy w then and_then (iterate w) (for_each (build_entry entry_type))
                  else Failure TypeError
              | None \<Rightarrow> Failure TypeError)
       \<and> parse_stereoset_file fs p entry_type \<noteq> Success []"
proof -
  let ?located = "case map_of kv (capitalize entry_type) of
                    Some w \<Rightarrow> if truthy w then w else JObj kv
                  | None \<Rightarrow> JObj kv"
  have loc: "locate_documents (JObj kv) entry_type = Success ?located"
    using assms(3,4) by (simp add: locate_documents_dict split: option.splits)
  from assms(3) have ne: "kv \<noteq> []" by auto
  then have whole: "truthy (JObj kv)" by (simp add: truthy_def)
  then have t: "truthy ?located"
    by (simp split: option.splits)
  with assms(4) have differs: "?located \<noteq> v" by auto
  have parse: "parse_stereoset_file fs p entry_type
                 = and_then (iterate ?located) (for_each (build_entry entry_type))"
    by (rule parse_stereoset_file_dict [OF assms(1,2) loc])
  have result: "parse_stereoset_file fs p entry_type
           = (case map_of kv (capitalize entry_type) of
                Some w \<Rightarrow>
                  if truthy w then and_then (iterate w) (for_each (build_entry entry_type))
                  else Failure TypeError
              | None \<Rightarrow> Failure TypeError)"
    unfolding parse using whole_section_fails [OF ne, of entry_type]
    by (simp split: option.splits)
  have "parse_stereoset_file fs p entry_type \<noteq> Success []"
    unfolding parse by (rule for_each_truthy_nonempty [OF t])
  with loc differs result show ?thesis by simp
qed


section \<open>The claims on the concrete inputs\<close>

lemma path_exists_bbq_fs [simp]:
  "path_exists (bbq_fs lines) [''datasets'', ''bbq'']"
  "path_exists (bbq_fs lines) [''datasets'', ''bbq'', ''Age.jsonl'']"
  by (simp_all add: path_exists_def bbq_fs_def)

lemma path_exists_stereoset_fs [simp]:
  "path_exists (stereoset_fs document) [''datasets'', ''stereoset'']"
  "path_exists (stereoset_fs document) [''datasets'', ''stereoset'', ''intersentence.json'']"
  by (simp_all add: path_exists_def stereoset_fs_def)

lemma parse_age_file:
  "parse_bbq_file (bbq_fs (map (\<lambda>n. Success (example_line n)) ns))
     [''datasets'', ''bbq'', ''Age.jsonl''] ''Age'' = Success (map example_bbq ns)"
proof -
  have "for_each (parse_bbq_line ''Age'') (map (\<lambda>n. Success (example_line n)) ns)
          = Success (map example_bbq ns)"
    by (induction ns) (simp_all add: parse_example_line)
  then show ?thesis
    by (simp add: parse_bbq_file_def open_age)
qed

lemma example_id_example_bbq [simp]: "example_id (example_bbq n) = JInt n"
  by (simp add: example_bbq_def)

lemma ids_example_document [simp]:
  "id' (example_document d x) = JStr d"
  "map sentence_id (sentences (example_document d x)) = [JStr x]"
  by (simp_all add: example_document_def)

lemma ids_single_BBQ [simp]:
  "example_ids (BBQ_row b # rows) = example_id b # example_ids rows"
  "sentence_ids (BBQ_row b # rows) = sentence_ids rows"
  "stereoset_ids (BBQ_row b # rows) = stereoset_ids rows"
  by (simp_all add: example_ids_def sentence_ids_def stereoset_ids_def)

lemma ids_single_StereoSet [simp]:
  "example_ids (StereoSet_row d # rows) = example_ids rows"
  "sentence_ids (StereoSet_row d # rows) = map sentence_id (sentences d) @ sentence_ids rows"
  "stereoset_ids (StereoSet_row d # rows) = id' d # stereoset_ids rows"
  by (simp_all add: example_ids_def sentence_ids_def stereoset_ids_def)

lemma ids_Nil [simp]:
  "example_ids [] = []" "sentence_ids [] = []" "stereoset_ids [] = []"
  by (simp_all add: example_ids_def sentence_ids_def stereoset_ids_def)

lemma insert_chunk_no_refusal:
  "insert_chunk no_refusal s chunk =
     (if \<not> list_all json_serializable chunk then (s, Failure StatementError)
      else if constraints_ok (committed s @ flushed s @ chunk)
      then (\<lparr>committed = committed s @ flushed s @ chunk, flushed = []\<rparr>, Success ())
      else (s, Failure IntegrityError))"
  by (simp add: insert_chunk_def flush_def commit_def no_refusal_def)

text \<open>The same document id in two chunks.\<close>
theorem duplicate_document_id_fails_witness:
  "insert_chunk no_refusal empty_session [StereoSet_row (example_document ''d1'' ''x1'')]
     = (\<lparr>committed = [StereoSet_row (example_document ''d1'' ''x1'')], flushed = []\<rparr>,
        Success ())
 \<and> StereoSet_row (example_document ''d1'' ''x1'')
      \<in> set [StereoSet_row (example_document ''d1'' ''x1'')]
 \<and> StereoSet_row (example_document ''d1'' ''x2'')
      \<in> set [StereoSet_row (example_document ''d1'' ''x2'')]
 \<and> id' (example_document ''d1'' ''x2'') = id' (example_document ''d1'' ''x1'')
 \<and> insert_chunk no_refusal
      \<lparr>committed = [StereoSet_row (example_document ''d1'' ''x1'')], flushed = []\<rparr>
      [StereoSet_row (example_document ''d1'' ''x2'')]
     = (\<lparr>committed = [StereoSet_row (example_document ''d1'' ''x1'')], flushed = []\<rparr>,
        Failure IntegrityError)"
proof -
  let ?d1 = "example_document ''d1'' ''x1''"
  let ?d2 = "example_document ''d1'' ''x2''"
  let ?s1 = "\<lparr>committed = [StereoSet_row ?d1], flushed = []\<rparr>"
  have first: "insert_chunk no_refusal empty_session [StereoSet_row ?d1] = (?s1, Success ())"
    by (simp add: insert_chunk_no_refusal empty_session_def constraints_ok_def)
  have m1: "StereoSet_row ?d1 \<in> set [StereoSet_row ?d1]" by simp
  have m2: "StereoSet_row ?d2 \<in> set [StereoSet_row ?d2]" by simp
  have same: "id' ?d2 = id' ?d1" by simp
  from duplicate_document_id_fails [OF first m1 m2 same]
  obtain e where e: "insert_chunk no_refusal ?s1 [StereoSet_row ?d2] = (?s1, Failure e)" ..
  then have "e = IntegrityError"
    by (simp add: insert_chunk_no_refusal split: if_splits)
  with e first m1 m2 same show ?thesis by simp
qed


lemma chunked_small:
  "xs \<noteq> [] \<Longrightarrow> length xs \<le> 1000 \<Longrightarrow> chunked chunk_size xs = [xs]"
  by (simp add: chunked_single chunk_size_def)

text \<open>A file whose second line lacks \<^verbatim>\<open>ans1\<close> in its \<^verbatim>\<open>answer_info\<close>.\<close>
theorem malformed_line_fails_whole_file_witness:
  "open_read (bbq_fs [Success (example_line 5), Success (line_without_ans1 6),
                      Failure JSONDecodeError])
     ([''datasets''] @ [''bbq'', ''Age'' @ ''.jsonl''])
     = Success [Success (example_line 5), Success (line_without_ans1 6), Failure JSONDecodeError]
 \<and> list_ex malformed
      [Success (example_line 5), Success (line_without_ans1 6), Failure JSONDecodeError]
 \<and> parse_bbq_file (bbq_fs [Success (example_line 5), Success (line_without_ans1 6),
                            Failure JSONDecodeError])
      [''datasets'', ''bbq'', ''Age.jsonl''] ''Age''
     = Failure (KeyError ''ans1'')
 \<and> load_bbq_category no_refusal
      (bbq_fs [Success (example_line 5), Success (line_without_ans1 6), Failure JSONDecodeError])
      [''datasets'', ''bbq''] (empty_session, []) ''Age''
     = (empty_session, [(ERROR, Failed_parsing BBQ_family ''Age'' (KeyError ''ans1''))])
 \<and> categories = [] @ ''Age'' # tl categories
 \<and> load_bbq no_refusal
      (bbq_fs [Success (example_line 5), Success (line_without_ans1 6), Failure JSONDecodeError])
      empty_session [''datasets'']
     = Success (empty_session,
         (ERROR, Failed_parsing BBQ_family ''Age'' (KeyError ''ans1''))
         # map (\<lambda>cat. (WARNING, Skipping_missing_file [''datasets'', ''bbq'', cat @ ''.jsonl'']))
             (tl categories))"
proof -
  let ?lines = "[Success (example_line 5), Success (line_without_ans1 6), Failure JSONDecodeError]"
  let ?fs = "bbq_fs ?lines"
  have h1: "open_read ?fs ([''datasets''] @ [''bbq'', ''Age'' @ ''.jsonl'']) = Success ?lines"
    by (simp add: open_age)
  have h2: "list_ex malformed ?lines"
    by (simp add: malformed_def)
  have p: "parse_bbq_file ?fs [''datasets'', ''bbq'', ''Age.jsonl''] ''Age''
             = Failure (KeyError ''ans1'')"
    by (simp add: parse_bbq_file_def open_age parse_example_line)
       (simp add: parse_bbq_line_def line_without_ans1_def bbq_line_def setitem_def
          getitem_def getitem_1_def build_answer_def upt_3)
  have cats: "categories = [] @ ''Age'' # tl categories"
    by (simp add: categories_def)
  have dir: "path_exists ?fs ([''datasets''] @ [''bbq''])" by simp
  have rest: "foldl (load_bbq_category no_refusal ?fs [''datasets'', ''bbq'']) (s, lg) (tl categories)
                = (s, lg @ map (\<lambda>cat. (WARNING,
                      Skipping_missing_file [''datasets'', ''bbq'', cat @ ''.jsonl'']))
                    (tl categories))" for s lg
    by (simp add: categories_def load_bbq_category_def path_exists_def bbq_fs_def)
  from malformed_line_fails_whole_file
         [OF h1 h2, where refuses = no_refusal and s = empty_session and lg = "[]"
            and before = "[]" and after = "tl categories" and ?s0.0 = empty_session]
       p dir cats
  have "load_bbq_category no_refusal ?fs [''datasets'', ''bbq''] (empty_session, []) ''Age''
          = (empty_session, [(ERROR, Failed_parsing BBQ_family ''Age'' (KeyError ''ans1''))])
      \<and> load_bbq no_refusal ?fs empty_session [''datasets'']
          = Success (foldl (load_bbq_category no_refusal ?fs [''datasets'', ''bbq''])
              (empty_session, [(ERROR, Failed_parsing BBQ_family ''Age'' (KeyError ''ans1''))])
              (tl categories))"
    by auto
  with h1 h2 p cats show ?thesis
    by (simp add: rest)
qed

lemma skip_missing_categories:
  "foldl (load_bbq_category refuses (bbq_fs lines) [''datasets'', ''bbq'']) (s, lg) (tl categories)
     = (s, lg @ map (\<lambda>cat. (WARNING,
                      Skipping_missing_file [''datasets'', ''bbq'', cat @ ''.jsonl'']))
                (tl categories))"
  by (simp add: categories_def load_bbq_category_def path_exists_def bbq_fs_def)

text \<open>
  A base path without the family directories, and the directories with one file each.
\<close>
theorem missing_directory_fatal_missing_file_skipped_witness:
  "\<not> path_exists (bbq_fs []) ([''elsewhere''] @ [''bbq''])
 \<and> load_bbq no_refusal (bbq_fs []) empty_session [''elsewhere''] = Failure FileNotFoundError
 \<and> \<not> path_exists (stereoset_fs (Success (JObj []))) ([''elsewhere''] @ [''stereoset''])
 \<and> load_stereoset no_refusal (stereoset_fs (Success (JObj []))) empty_session [''elsewhere'']
     = Failure FileNotFoundError
 \<and> path_exists (bbq_fs []) ([''datasets''] @ [''bbq''])
 \<and> \<not> path_exists (bbq_fs []) ([''datasets''] @ [''bbq'', ''SES'' @ ''.jsonl''])
 \<and> load_bbq_category no_refusal (bbq_fs []) [''datasets'', ''bbq''] (empty_session, []) ''SES''
     = (empty_session, [(WARNING, Skipping_missing_file [''datasets'', ''bbq'', ''SES.jsonl''])])
 \<and> categories = butlast (butlast categories) @ ''SES'' # [''Sexual_orientation'']
 \<and> load_bbq no_refusal (bbq_fs []) empty_session [''datasets'']
     = Success (empty_session,
         (INFO, Loaded 0 BBQ_family ''Age'')
         # map (\<lambda>cat. (WARNING, Skipping_missing_file [''datasets'', ''bbq'', cat @ ''.jsonl'']))
             (tl categories))
 \<and> path_exists (stereoset_fs (Success (JObj []))) ([''datasets''] @ [''stereoset''])
 \<and> \<not> path_exists (stereoset_fs (Success (JObj [])))
       ([''datasets''] @ [''stereoset'', ''intrasentence.json''])
 \<and> files = [(''intersentence.json'', ''intersentence'')]
             @ (''intrasentence.json'', ''intrasentence'') # []
 \<and> load_stereoset no_refusal (stereoset_fs (Success (JObj []))) empty_session [''datasets'']
     = Success (empty_session,
         [(INFO, Loaded 0 StereoSet_family ''intersentence.json''),
          (WARNING, Skipping_missing_file [''datasets'', ''stereoset'', ''intrasentence.json''])])"
proof -
  let ?fs = "bbq_fs []"
  let ?fs' = "stereoset_fs (Success (JObj []))"
  let ?before = "butlast (butlast categories)"
  have a1: "\<not> path_exists ?fs ([''elsewhere''] @ [''bbq''])"
    by (simp add: path_exists_def bbq_fs_def)
  have a2: "\<not> path_exists ?fs' ([''elsewhere''] @ [''stereoset''])"
    by (simp add: path_exists_def stereoset_fs_def)
  note fatal = missing_directory_fatal_missing_file_skipped
    [where fs = ?fs and fs' = ?fs' and base_path = "[''elsewhere'']" and refuses = no_refusal
       and s = empty_session]
  from fatal a1 have c1: "load_bbq no_refusal ?fs empty_session [''elsewhere'']
                            = Failure FileNotFoundError"
    by blast
  from fatal a2 have c2: "load_stereoset no_refusal ?fs' empty_session [''elsewhere'']
                            = Failure FileNotFoundError"
    by blast
  have b1: "path_exists ?fs ([''datasets''] @ [''bbq''])" by simp
  have b2: "\<not> path_exists ?fs ([''datasets''] @ [''bbq'', ''SES'' @ ''.jsonl''])"
    by (simp add: path_exists_def bbq_fs_def)
  have b3: "categories = ?before @ ''SES'' # [''Sexual_orientation'']"
    by (simp add: categories_def)
  have b4: "path_exists ?fs' ([''datasets''] @ [''stereoset''])" by simp
  have b5: "\<not> path_exists ?fs' ([''datasets''] @ [''stereoset'', ''intrasentence.json''])"
    by (simp add: path_exists_def stereoset_fs_def)
  have b6: "files = [(''intersentence.json'', ''intersentence'')]
                      @ (''intrasentence.json'', ''intrasentence'') # []"
    by (simp add: files_def)
  note skip = missing_directory_fatal_missing_file_skipped
    [where fs = ?fs and fs' = ?fs' and base_path = "[''datasets'']" and refuses = no_refusal
       and s = empty_session and lg = "[]" and bbq_dir = "[''datasets'', ''bbq'']"
       and cat = "''SES''" and before = ?before and after = "[''Sexual_orientation'']"
       and stereoset_dir = "[''datasets'', ''stereoset'']"
       and filename = "''intrasentence.json''" and entry_type = "''intrasentence''"
       and before' = "[(''intersentence.json'', ''intersentence'')]" and after' = "[]"]
  from skip b2 have c3: "load_bbq_category no_refusal ?fs [''datasets'', ''bbq'']
                           (empty_session, []) ''SES''
                         = (empty_session,
                            [(WARNING, Skipping_missing_file [''datasets'', ''bbq'', ''SES.jsonl''])])"
    by simp
  have age: "load_bbq_category no_refusal ?fs [''datasets'', ''bbq''] (empty_session, []) ''Age''
               = (empty_session, [(INFO, Loaded 0 BBQ_family ''Age'')])"
    by (simp add: load_bbq_category_def parse_bbq_file_def open_age load_entries_logs_count chunked_Nil)
  have whole: "load_bbq no_refusal ?fs empty_session [''datasets'']
     = Success (empty_session,
         (INFO, Loaded 0 BBQ_family ''Age'')
         # map (\<lambda>cat. (WARNING, Skipping_missing_file [''datasets'', ''bbq'', cat @ ''.jsonl'']))
             (tl categories))"
  proof -
    have "categories = ''Age'' # tl categories" by (simp add: categories_def)
    then have "foldl (load_bbq_category no_refusal ?fs [''datasets'', ''bbq'']) (empty_session, [])
                 categories
               = foldl (load_bbq_category no_refusal ?fs [''datasets'', ''bbq''])
                   (load_bbq_category no_refusal ?fs [''datasets'', ''bbq''] (empty_session, []) ''Age'')
                   (tl categories)"
      by (metis foldl_Cons)
    then show ?thesis
      using b1 by (simp add: load_bbq_def age skip_missing_categories)
  qed
  have inter: "load_stereoset_file no_refusal ?fs' [''datasets'', ''stereoset''] (empty_session, [])
                 (''intersentence.json'', ''intersentence'')
               = (empty_session, [(INFO, Loaded 0 StereoSet_family ''intersentence.json'')])"
    by (simp add: load_stereoset_file_def parse_stereoset_file_def open_intersentence
        data_section_def locate_documents_def dict_get_def truthy_def iterate_def
        load_entries_logs_count chunked_Nil)
  from skip b4 b5 b6
  have c4: "load_stereoset no_refusal ?fs' empty_session [''datasets'']
     = Success (empty_session,
         [(INFO, Loaded 0 StereoSet_family ''intersentence.json''),
          (WARNING, Skipping_missing_file [''datasets'', ''stereoset'', ''intrasentence.json''])])"
    by (simp add: inter)
  from a1 c1 a2 c2 b1 b2 c3 b3 whole b4 b5 b6 c4 show ?thesis
    by blast
qed

lemma open_with_data:
  "open_read (stereoset_fs (with_data section))
     [''datasets'', ''stereoset'', ''intersentence.json'']
   = Success (Success (JObj [(''data'', JObj section)]))"
  by (simp add: open_intersentence with_data_def)

lemma data_section_with_data:
  "data_section (JObj [(''data'', JObj section)]) = JObj section"
  by (simp add: data_section_def)

lemma truthy_JArr [simp]: "truthy (JArr xs) \<longleftrightarrow> xs \<noteq> []"
  by (simp add: truthy_def)

lemma truthy_JObj [simp]: "truthy (JObj kv) \<longleftrightarrow> kv \<noteq> []"
  by (simp add: truthy_def)

lemma parse_two_documents:
  "parse_stereoset_file
     (stereoset_fs (with_data [(''intersentence'', JArr [raw_document d1 x1, raw_document d2 x2])]))
     [''datasets'', ''stereoset'', ''intersentence.json''] ''intersentence''
   = Success [example_document d1 x1, example_document d2 x2]"
  by (simp add: parse_stereoset_file_def open_with_data data_section_with_data
      locate_documents_dict iterate_def build_raw_document)



text \<open>
  An empty array under the lowercase key, with a document under the capitalized key and
  without it.
\<close>
theorem falsy_discriminator_falls_back_witness:
  "open_read
     (stereoset_fs (with_data [(''intersentence'', JArr []),
                               (''Intersentence'', JArr [raw_document ''d1'' ''x1''])]))
     [''datasets'', ''stereoset'', ''intersentence.json'']
     = Success (Success (JObj [(''data'',
         JObj [(''intersentence'', JArr []),
               (''Intersentence'', JArr [raw_document ''d1'' ''x1''])])]))
 \<and> data_section (JObj [(''data'',
        JObj [(''intersentence'', JArr []),
              (''Intersentence'', JArr [raw_document ''d1'' ''x1''])])])
     = JObj [(''intersentence'', JArr []), (''Intersentence'', JArr [raw_document ''d1'' ''x1''])]
 \<and> map_of [(''intersentence'', JArr []), (''Intersentence'', JArr [raw_document ''d1'' ''x1''])]
      ''intersentence'' = Some (JArr [])
 \<and> \<not> truthy (JArr [])
 \<and> locate_documents
      (JObj [(''intersentence'', JArr []), (''Intersentence'', JArr [raw_document ''d1'' ''x1''])])
      ''intersentence''
     = Success (JArr [raw_document ''d1'' ''x1''])
 \<and> parse_stereoset_file
      (stereoset_fs (with_data [(''intersentence'', JArr []),
                                (''Intersentence'', JArr [raw_document ''d1'' ''x1''])]))
      [''datasets'', ''stereoset'', ''intersentence.json''] ''intersentence''
     = Success [example_document ''d1'' ''x1'']
 \<and> open_read (stereoset_fs (with_data [(''intersentence'', JArr [])]))
      [''datasets'', ''stereoset'', ''intersentence.json'']
     = Success (Success (JObj [(''data'', JObj [(''intersentence'', JArr [])])]))
 \<and> locate_documents (JObj [(''intersentence'', JArr [])]) ''intersentence''
     = Success (JObj [(''intersentence'', JArr [])])
 \<and> parse_stereoset_file (stereoset_fs (with_data [(''intersentence'', JArr [])]))
      [''datasets'', ''stereoset'', ''intersentence.json''] ''intersentence''
     = Failure TypeError"
proof -
  let ?kv = "[(''intersentence'', JArr []), (''Intersentence'', JArr [raw_document ''d1'' ''x1''])]"
  let ?kv' = "[(''intersentence'', JArr [])]"
  let ?p = "[''datasets'', ''stereoset'', ''intersentence.json'']"
  have h1: "open_read (stereoset_fs (with_data ?kv)) ?p
              = Success (Success (JObj [(''data'', JObj ?kv)]))"
    by (rule open_with_data)
  have h2: "data_section (JObj [(''data'', JObj ?kv)]) = JObj ?kv"
    by (rule data_section_with_data)
  have h3: "map_of ?kv ''intersentence'' = Some (JArr [])" by simp
  have h4: "\<not> truthy (JArr [])" by simp
  from falsy_discriminator_falls_back [OF h1 h2 h3 h4]
  have c1: "locate_documents (JObj ?kv) ''intersentence''
              = Success (JArr [raw_document ''d1'' ''x1''])"
    and c2: "parse_stereoset_file (stereoset_fs (with_data ?kv)) ?p ''intersentence''
              = Success [example_document ''d1'' ''x1'']"
    by (simp_all add: capitalize_intersentence iterate_def build_raw_document)
  have g1: "open_read (stereoset_fs (with_data ?kv')) ?p
              = Success (Success (JObj [(''data'', JObj ?kv')]))"
    by (rule open_with_data)
  have g2: "data_section (JObj [(''data'', JObj ?kv')]) = JObj ?kv'"
    by (rule data_section_with_data)
  have g3: "map_of ?kv' ''intersentence'' = Some (JArr [])" by simp
  from falsy_discriminator_falls_back [OF g1 g2 g3 h4]
  have c3: "locate_documents (JObj ?kv') ''intersentence'' = Success (JObj ?kv')"
    and c4: "parse_stereoset_file (stereoset_fs (with_data ?kv')) ?p ''intersentence''
              = Failure TypeError"
    by (simp_all add: capitalize_intersentence)
  from h1 h2 h3 h4 c1 c2 g1 c3 c4 show ?thesis by simp
qed

lemma parse_two_documents_at:
  "parse_stereoset_file
     (stereoset_fs (with_data [(''intersentence'', JArr [raw_document d1 x1, raw_document d2 x2])]))
     ([''datasets'', ''stereoset''] @ [''intersentence.json'']) ''intersentence''
   = Success [example_document d1 x1, example_document d2 x2]"
  using parse_two_documents [of d1 x1 d2 x2] by simp

lemma parse_duplicate_lines:
  "parse_bbq_file
     (bbq_fs [Success (example_line 5), Success (example_line 5), Success (example_line 6)])
     ([''datasets'', ''bbq''] @ [''Age'' @ ''.jsonl'']) ''Age''
   = Success [example_bbq 5, example_bbq 5, example_bbq 6]"
  using parse_age_file [of "[5, 5, 6]"] by simp

text \<open>
  Two documents of one file whose sentences have the same \<^verbatim>\<open>sentence_id\<close>: they form one
  chunk, the chunk fails, and neither is stored. The file of three lines whose second line
  repeats \<^verbatim>\<open>example_id\<close> 5: its lines form one chunk that breaks the key constraint, and
  no Entry is stored.
\<close>
theorem duplicate_in_one_chunk_loads_nothing:
  "parse_stereoset_file
     (stereoset_fs (with_data [(''intersentence'',
        JArr [raw_document ''d1'' ''x1'', raw_document ''d2'' ''x1''])]))
     [''datasets'', ''stereoset'', ''intersentence.json''] ''intersentence''
     = Success [example_document ''d1'' ''x1'', example_document ''d2'' ''x1'']
 \<and> insert_chunk no_refusal empty_session
      [StereoSet_row (example_document ''d1'' ''x1''),
       StereoSet_row (example_document ''d2'' ''x1'')]
     = (empty_session, Failure IntegrityError)
 \<and> fst (load_stereoset_file no_refusal
        (stereoset_fs (with_data [(''intersentence'',
           JArr [raw_document ''d1'' ''x1'', raw_document ''d2'' ''x1''])]))
        [''datasets'', ''stereoset''] (empty_session, [])
        (''intersentence.json'', ''intersentence''))
     = empty_session
 \<and> parse_bbq_file
      (bbq_fs [Success (example_line 5), Success (example_line 5), Success (example_line 6)])
      [''datasets'', ''bbq'', ''Age.jsonl''] ''Age''
     = Success [example_bbq 5, example_bbq 5, example_bbq 6]
 \<and> \<not> constraints_ok [BBQ_row (example_bbq 5), BBQ_row (example_bbq 5), BBQ_row (example_bbq 6)]
 \<and> fst (load_bbq_category no_refusal
        (bbq_fs [Success (example_line 5), Success (example_line 5), Success (example_line 6)])
        [''datasets'', ''bbq''] (empty_session, []) ''Age'')
     = empty_session
 \<and> committed empty_session = []"
proof -
  let ?docs = "[example_document ''d1'' ''x1'', example_document ''d2'' ''x1'']"
  let ?fs' = "stereoset_fs (with_data [(''intersentence'',
                 JArr [raw_document ''d1'' ''x1'', raw_document ''d2'' ''x1''])])"
  let ?fs = "bbq_fs [Success (example_line 5), Success (example_line 5), Success (example_line 6)]"
  have p: "parse_stereoset_file ?fs' [''datasets'', ''stereoset'', ''intersentence.json'']
             ''intersentence'' = Success ?docs"
    by (rule parse_two_documents)
  have one: "insert_chunk no_refusal empty_session (map StereoSet_row ?docs)
               = (empty_session, Failure IntegrityError)"
    by (simp add: insert_chunk_no_refusal empty_session_def constraints_ok_def)
  have l: "fst (load_stereoset_file no_refusal ?fs' [''datasets'', ''stereoset'']
                  (empty_session, []) (''intersentence.json'', ''intersentence''))
             = empty_session"
    using one by (simp add: load_stereoset_file_def p load_entries_logs_count chunked_small)
  have q: "parse_bbq_file ?fs [''datasets'', ''bbq'', ''Age.jsonl''] ''Age''
             = Success [example_bbq 5, example_bbq 5, example_bbq 6]"
    using parse_duplicate_lines by simp
  have bad: "\<not> constraints_ok
               [BBQ_row (example_bbq 5), BBQ_row (example_bbq 5), BBQ_row (example_bbq 6)]"
    by (simp add: constraints_ok_def)
  have m: "fst (load_bbq_category no_refusal ?fs [''datasets'', ''bbq''] (empty_session, []) ''Age'')
             = empty_session"
    by (simp add: load_bbq_category_def q load_entries_logs_count chunked_small
        insert_chunk_no_refusal)
  from p one l q bad m show ?thesis
    by (simp add: empty_session_def)
qed

text \<open>
  A repeated \<^verbatim>\<open>sentence_id\<close> inside one chunk and across two chunks, and the two files
  above.
\<close>
theorem duplicate_key_fails_whole_chunk_witness:
  "constraints_ok (committed empty_session @ flushed empty_session)
 \<and> insert_chunk no_refusal empty_session [StereoSet_row (example_document ''d1'' ''x1'')]
     = (\<lparr>committed = [StereoSet_row (example_document ''d1'' ''x1'')], flushed = []\<rparr>,
        Success ())
 \<and> distinct (sentence_ids [StereoSet_row (example_document ''d1'' ''x1'')])
 \<and> \<not> distinct (sentence_ids (committed empty_session @ flushed empty_session
       @ [StereoSet_row (example_document ''d1'' ''x1''),
          StereoSet_row (example_document ''d2'' ''x1'')]))
 \<and> insert_chunk no_refusal empty_session
      [StereoSet_row (example_document ''d1'' ''x1''),
       StereoSet_row (example_document ''d2'' ''x1'')]
     = (empty_session, Failure IntegrityError)
 \<and> StereoSet_row (example_document ''d1'' ''x1'')
      \<in> set [StereoSet_row (example_document ''d1'' ''x1'')]
 \<and> hd (sentences (example_document ''d1'' ''x1''))
      \<in> set (sentences (example_document ''d1'' ''x1''))
 \<and> sentence_id (hd (sentences (example_document ''d2'' ''x1'')))
     = sentence_id (hd (sentences (example_document ''d1'' ''x1'')))
 \<and> insert_chunk no_refusal
      \<lparr>committed = [StereoSet_row (example_document ''d1'' ''x1'')], flushed = []\<rparr>
      [StereoSet_row (example_document ''d2'' ''x1'')]
     = (\<lparr>committed = [StereoSet_row (example_document ''d1'' ''x1'')], flushed = []\<rparr>,
        Failure IntegrityError)
 \<and> path_exists
      (bbq_fs [Success (example_line 5), Success (example_line 5), Success (example_line 6)])
      ([''datasets'', ''bbq''] @ [''Age'' @ ''.jsonl''])
 \<and> parse_bbq_file
      (bbq_fs [Success (example_line 5), Success (example_line 5), Success (example_line 6)])
      ([''datasets'', ''bbq''] @ [''Age'' @ ''.jsonl'']) ''Age''
     = Success [example_bbq 5, example_bbq 5, example_bbq 6]
 \<and> \<not> distinct (map example_id [example_bbq 5, example_bbq 5, example_bbq 6])
 \<and> fst (load_bbq_category no_refusal
        (bbq_fs [Success (example_line 5), Success (example_line 5), Success (example_line 6)])
        [''datasets'', ''bbq''] (empty_session, []) ''Age'')
     = empty_session
 \<and> path_exists
      (stereoset_fs (with_data [(''intersentence'',
         JArr [raw_document ''d1'' ''x1'', raw_document ''d2'' ''x1''])]))
      ([''datasets'', ''stereoset''] @ [''intersentence.json''])
 \<and> parse_stereoset_file
      (stereoset_fs (with_data [(''intersentence'',
         JArr [raw_document ''d1'' ''x1'', raw_document ''d2'' ''x1''])]))
      ([''datasets'', ''stereoset''] @ [''intersentence.json'']) ''intersentence''
     = Success [example_document ''d1'' ''x1'', example_document ''d2'' ''x1'']
 \<and> fst (load_stereoset_file no_refusal
        (stereoset_fs (with_data [(''intersentence'',
           JArr [raw_document ''d1'' ''x1'', raw_document ''d2'' ''x1''])]))
        [''datasets'', ''stereoset''] (empty_session, [])
        (''intersentence.json'', ''intersentence''))
     = empty_session"
proof -
  let ?d1 = "example_document ''d1'' ''x1''"
  let ?d2 = "example_document ''d2'' ''x1''"
  let ?both = "[StereoSet_row ?d1, StereoSet_row ?d2]"
  let ?s1 = "\<lparr>committed = [StereoSet_row ?d1], flushed = []\<rparr>"
  let ?fs = "bbq_fs [Success (example_line 5), Success (example_line 5), Success (example_line 6)]"
  let ?entries = "[example_bbq 5, example_bbq 5, example_bbq 6]"
  let ?fs' = "stereoset_fs (with_data [(''intersentence'',
                 JArr [raw_document ''d1'' ''x1'', raw_document ''d2'' ''x1''])])"
  have h1: "constraints_ok (committed empty_session @ flushed empty_session)"
    by (simp add: empty_session_def constraints_ok_def)
  have one: "insert_chunk no_refusal empty_session [StereoSet_row ?d1] = (?s1, Success ())"
    by (simp add: insert_chunk_no_refusal empty_session_def constraints_ok_def)
  from duplicate_key_fails_whole_chunk
         [where s = empty_session and refuses = no_refusal and chunk = "[StereoSet_row ?d1]"
            and s' = ?s1 and r = "Success ()"] h1 one
  have c1: "distinct (sentence_ids [StereoSet_row ?d1])"
    by simp
  note t = duplicate_key_fails_whole_chunk
    [where s = empty_session and refuses = no_refusal and chunk = ?both
       and first = "[StereoSet_row ?d1]" and ?s1.0 = ?s1 and ?d1.0 = ?d1
       and ?x1.0 = "hd (sentences ?d1)" and later = "[StereoSet_row ?d2]" and ?d2.0 = ?d2
       and ?x2.0 = "hd (sentences ?d2)"
       and fs = ?fs and bbq_dir = "[''datasets'', ''bbq'']" and cat = "''Age''"
       and entries = ?entries and lg = "[]"
       and fs' = ?fs' and stereoset_dir = "[''datasets'', ''stereoset'']"
       and filename = "''intersentence.json''" and entry_type = "''intersentence''"
       and docs = "[?d1, ?d2]"]
  have h2: "\<not> distinct (sentence_ids (committed empty_session @ flushed empty_session @ ?both))"
    by (simp add: empty_session_def)
  from t h2 obtain e where "insert_chunk no_refusal empty_session ?both
                              = (empty_session, Failure e)"
    by blast
  then have c2: "insert_chunk no_refusal empty_session ?both
                   = (empty_session, Failure IntegrityError)"
    by (simp add: insert_chunk_no_refusal split: if_splits)
  have h3: "StereoSet_row ?d1 \<in> set [StereoSet_row ?d1]"
    "hd (sentences ?d1) \<in> set (sentences ?d1)"
    "StereoSet_row ?d2 \<in> set [StereoSet_row ?d2]"
    "hd (sentences ?d2) \<in> set (sentences ?d2)"
    "sentence_id (hd (sentences ?d2)) = sentence_id (hd (sentences ?d1))"
    by (simp_all add: example_document_def)
  from t one h3 obtain e' where "insert_chunk no_refusal ?s1 [StereoSet_row ?d2]
                                   = (?s1, Failure e')"
    by blast
  then have c3: "insert_chunk no_refusal ?s1 [StereoSet_row ?d2] = (?s1, Failure IntegrityError)"
    by (simp add: insert_chunk_no_refusal split: if_splits)
  have h4: "path_exists ?fs ([''datasets'', ''bbq''] @ [''Age'' @ ''.jsonl''])"
    "parse_bbq_file ?fs ([''datasets'', ''bbq''] @ [''Age'' @ ''.jsonl'']) ''Age'' = Success ?entries"
    "?entries \<noteq> []" "length ?entries \<le> chunk_size"
    "\<not> distinct (map example_id ?entries)"
    using parse_duplicate_lines by (simp_all add: chunk_size_def)
  from t h4
  have c4: "fst (load_bbq_category no_refusal ?fs [''datasets'', ''bbq''] (empty_session, []) ''Age'')
              = empty_session"
    by blast
  have h5: "path_exists ?fs' ([''datasets'', ''stereoset''] @ [''intersentence.json''])"
    "parse_stereoset_file ?fs' ([''datasets'', ''stereoset''] @ [''intersentence.json''])
       ''intersentence'' = Success [?d1, ?d2]"
    "[?d1, ?d2] \<noteq> []" "length [?d1, ?d2] \<le> chunk_size"
    "\<not> distinct (concat (map (\<lambda>d. map sentence_id (sentences d)) [?d1, ?d2]))"
    using parse_two_documents_at [of "''d1''" "''x1''" "''d2''" "''x1''"]
    by (simp_all add: chunk_size_def)
  from t h5
  have c5: "fst (load_stereoset_file no_refusal ?fs' [''datasets'', ''stereoset'']
                   (empty_session, []) (''intersentence.json'', ''intersentence''))
              = empty_session"
    by blast
  from h1 one c1 h2 c2 h3 c3 h4 c4 h5 c5 show ?thesis
    by blast
qed

text \<open>
  C1, where the code departs from it. A file of one well-formed line: the parser builds its
  one Entry with the answers 0, 1, 2, and the Entry breaks no key constraint, but writing it
  raises \<^verbatim>\<open>StatementError\<close> for the \<^verbatim>\<open>AdditionalMetadata\<close> object bound to the JSON column;
  the chunk is rolled back, no Entry is stored, and the log says that one Entry was loaded.
\<close>
theorem well_formed_line_is_not_stored:
  "list_all well_formed_line [Success (example_line 5)]
 \<and> parse_bbq_file (bbq_fs [Success (example_line 5)])
      [''datasets'', ''bbq'', ''Age.jsonl''] ''Age''
     = Success [example_bbq 5]
 \<and> map index (answers (example_bbq 5)) = [0, 1, 2]
 \<and> constraints_ok (committed empty_session @ flushed empty_session @ [BBQ_row (example_bbq 5)])
 \<and> insert_chunk no_refusal empty_session [BBQ_row (example_bbq 5)]
     = (empty_session, Failure StatementError)
 \<and> load_bbq_category no_refusal (bbq_fs [Success (example_line 5)])
      [''datasets'', ''bbq''] (empty_session, []) ''Age''
     = (empty_session, [(INFO, Loaded 1 BBQ_family ''Age'')])
 \<and> committed empty_session = []"
proof -
  have wf: "list_all well_formed_line [Success (example_line 5)]"
    by (simp add: well_formed_line_def well_formed_example_line)
  have p: "parse_bbq_file (bbq_fs [Success (example_line 5)])
             [''datasets'', ''bbq'', ''Age.jsonl''] ''Age'' = Success [example_bbq 5]"
    using parse_age_file [of "[5]"] by simp
  have a: "map index (answers (example_bbq 5)) = [0, 1, 2]"
    by (simp add: example_bbq_def)
  have ok: "constraints_ok (committed empty_session @ flushed empty_session
                              @ [BBQ_row (example_bbq 5)])"
    by (simp add: empty_session_def constraints_ok_def)
  have one: "insert_chunk no_refusal empty_session [BBQ_row (example_bbq 5)]
               = (empty_session, Failure StatementError)"
    by (simp add: insert_chunk_no_refusal)
  have l: "load_bbq_category no_refusal (bbq_fs [Success (example_line 5)])
             [''datasets'', ''bbq''] (empty_session, []) ''Age''
           = (empty_session, [(INFO, Loaded 1 BBQ_family ''Age'')])"
    by (simp add: load_bbq_category_def p load_entries_logs_count chunked_small one)
  from wf p a ok one l show ?thesis
    by (simp add: empty_session_def)
qed

text \<open>
  C8, where the code departs from it. A file of two documents with the same id: its one chunk
  fails with \<^verbatim>\<open>IntegrityError\<close> and stores nothing, the awaited value is an \<^verbatim>\<open>IOResult\<close> and
  so does not pass the test \<^verbatim>\<open>isinstance(r, Failure)\<close>, and the log holds no failure and the
  count 2, the number of parsed documents.
\<close>
theorem failed_chunk_is_logged_as_loaded:
  "parse_stereoset_file
     (stereoset_fs (with_data [(''intersentence'',
        JArr [raw_document ''d1'' ''x1'', raw_document ''d1'' ''x2''])]))
     [''datasets'', ''stereoset'', ''intersentence.json''] ''intersentence''
     = Success [example_document ''d1'' ''x1'', example_document ''d1'' ''x2'']
 \<and> insert_chunks no_refusal empty_session
      (chunked chunk_size
         (map StereoSet_row [example_document ''d1'' ''x1'', example_document ''d1'' ''x2'']))
     = (empty_session, [IOResult (Failure IntegrityError)])
 \<and> \<not> isinstance_Failure (IOResult (Failure IntegrityError :: unit result))
 \<and> failures [IOResult (Failure IntegrityError :: unit result)] = []
 \<and> load_stereoset_file no_refusal
      (stereoset_fs (with_data [(''intersentence'',
         JArr [raw_document ''d1'' ''x1'', raw_document ''d1'' ''x2''])]))
      [''datasets'', ''stereoset''] (empty_session, [])
      (''intersentence.json'', ''intersentence'')
     = (empty_session, [(INFO, Loaded 2 StereoSet_family ''intersentence.json'')])"
proof -
  let ?docs = "[example_document ''d1'' ''x1'', example_document ''d1'' ''x2'']"
  let ?fs' = "stereoset_fs (with_data [(''intersentence'',
                 JArr [raw_document ''d1'' ''x1'', raw_document ''d1'' ''x2''])])"
  have p: "parse_stereoset_file ?fs' [''datasets'', ''stereoset'', ''intersentence.json'']
             ''intersentence'' = Success ?docs"
    by (rule parse_two_documents)
  have g: "insert_chunks no_refusal empty_session (chunked chunk_size (map StereoSet_row ?docs))
             = (empty_session, [IOResult (Failure IntegrityError)])"
    by (simp add: chunked_small insert_chunk_no_refusal empty_session_def constraints_ok_def)
  have f: "failures [IOResult (Failure IntegrityError :: unit result)] = []"
    by (simp add: failures_def)
  have l: "load_stereoset_file no_refusal ?fs' [''datasets'', ''stereoset''] (empty_session, [])
             (''intersentence.json'', ''intersentence'')
           = (empty_session, [(INFO, Loaded 2 StereoSet_family ''intersentence.json'')])"
    using g by (simp add: load_stereoset_file_def p load_entries_def f)
  from p g f l show ?thesis by simp
qed


end
